theory Spec2Isabelle
  imports Complex_Main "HOL-Library.Sublist"
begin

section \<open>Python values and exceptions\<close>

text \<open>
  The resume-screening pipeline (\<^verbatim>\<open>workflow.py\<close>, \<^verbatim>\<open>chains.py\<close>) is Python: the
  dictionaries it passes around hold whatever the JSON parser of the oracle chain
  returned. The values are therefore modelled as an untyped JSON tree, and each primitive
  the code applies to them (\<^verbatim>\<open>.get\<close>, \<^verbatim>\<open>in\<close>, \<^verbatim>\<open>[...]\<close>, \<^verbatim>\<open><\<close>, truthiness)
  is written out with the exception Python raises on a value of the wrong kind.

  Text is a list of 8-bit characters (code points below 256). A Python float is a
  rational or one of the three special values that \<^verbatim>\<open>json.loads\<close> accepts. An
  object is the parsed dict, written as an association list: a key is looked up with
  \<open>map_of\<close>, which takes its first binding. The texts of the built-in exceptions are
  those of CPython 3.11; nothing below depends on them.
\<close>

datatype pyexn =
    ValueError string
  | AttributeError string
  | TypeError string
  | KeyError string
  | OutputParserException string
  | OtherException string

text \<open>\<^verbatim>\<open>str(e)\<close>: the message of an exception (\<^verbatim>\<open>KeyError\<close> quotes its key).\<close>

fun str_exn :: "pyexn \<Rightarrow> string" where
  "str_exn (ValueError m) = m"
| "str_exn (AttributeError m) = m"
| "str_exn (TypeError m) = m"
| "str_exn (KeyError k) = [CHR 0x27] @ k @ [CHR 0x27]"
| "str_exn (OutputParserException m) = m"
| "str_exn (OtherException m) = m"

datatype pyfloat = Finite rat | PosInf | NegInf | NaN

datatype json =
    JNull
  | JBool bool
  | JInt int
  | JFloat pyfloat
  | JStr string
  | JArr "json list"
  | JObj "(string \<times> json) list"

fun type_name :: "json \<Rightarrow> string" where
  "type_name JNull = ''NoneType''"
| "type_name (JBool b) = ''bool''"
| "type_name (JInt i) = ''int''"
| "type_name (JFloat f) = ''float''"
| "type_name (JStr s) = ''str''"
| "type_name (JArr xs) = ''list''"
| "type_name (JObj kvs) = ''dict''"

text \<open>Truthiness, as \<^verbatim>\<open>if x:\<close> and \<^verbatim>\<open>not x\<close> evaluate it.\<close>

fun truthy :: "json \<Rightarrow> bool" where
  "truthy JNull = False"
| "truthy (JBool b) = b"
| "truthy (JInt i) = (i \<noteq> 0)"
| "truthy (JFloat f) = (f \<noteq> Finite 0)"
| "truthy (JStr s) = (s \<noteq> [])"
| "truthy (JArr xs) = (xs \<noteq> [])"
| "truthy (JObj kvs) = (kvs \<noteq> [])"

text \<open>\<^verbatim>\<open>d.get(key, default)\<close>: only a dict has the method.\<close>

fun py_get :: "json \<Rightarrow> string \<Rightarrow> json \<Rightarrow> pyexn + json" where
  "py_get (JObj kvs) key dflt = Inr (case map_of kvs key of Some v \<Rightarrow> v | None \<Rightarrow> dflt)"
| "py_get d key dflt =
     Inl (AttributeError ([CHR 0x27] @ type_name d @ [CHR 0x27] @ '' object has no attribute ''
                          @ [CHR 0x27] @ ''get'' @ [CHR 0x27]))"

text \<open>
  \<^verbatim>\<open>key in c\<close> for a text key: key membership in a dict, element membership in a list,
  substring test in a str, \<^verbatim>\<open>TypeError\<close> otherwise.
\<close>

fun py_contains :: "string \<Rightarrow> json \<Rightarrow> pyexn + bool" where
  "py_contains key (JObj kvs) = Inr (map_of kvs key \<noteq> None)"
| "py_contains key (JArr xs) = Inr (List.member xs (JStr key))"
| "py_contains key (JStr s) = Inr (sublist key s)"
| "py_contains key c =
     Inl (TypeError (''argument of type '' @ [CHR 0x27] @ type_name c @ [CHR 0x27]
                     @ '' is not iterable''))"

text \<open>\<^verbatim>\<open>c[key]\<close> for a text key.\<close>

fun py_getitem :: "json \<Rightarrow> string \<Rightarrow> pyexn + json" where
  "py_getitem (JObj kvs) key = (case map_of kvs key of Some v \<Rightarrow> Inr v | None \<Rightarrow> Inl (KeyError key))"
| "py_getitem (JArr xs) key = Inl (TypeError ''list indices must be integers or slices, not str'')"
| "py_getitem (JStr s) key =
     Inl (TypeError (''string indices must be integers, not '' @ [CHR 0x27] @ ''str'' @ [CHR 0x27]))"
| "py_getitem c key =
     Inl (TypeError ([CHR 0x27] @ type_name c @ [CHR 0x27] @ '' object is not subscriptable''))"

text \<open>\<^verbatim>\<open>x < n\<close> for an int \<open>n\<close>: numbers compare (a bool is an int), anything else raises.\<close>

fun float_lt_int :: "pyfloat \<Rightarrow> int \<Rightarrow> bool" where
  "float_lt_int (Finite q) n = (q < of_int n)"
| "float_lt_int NegInf n = True"
| "float_lt_int PosInf n = False"
| "float_lt_int NaN n = False"

fun py_lt_int :: "json \<Rightarrow> int \<Rightarrow> pyexn + bool" where
  "py_lt_int (JInt i) n = Inr (i < n)"
| "py_lt_int (JBool b) n = Inr ((if b then 1 else 0) < n)"
| "py_lt_int (JFloat f) n = Inr (float_lt_int f n)"
| "py_lt_int x n =
     Inl (TypeError ([CHR 0x27] @ ''<'' @ [CHR 0x27] @ '' not supported between instances of ''
                     @ [CHR 0x27] @ type_name x @ [CHR 0x27] @ '' and ''
                     @ [CHR 0x27] @ ''int'' @ [CHR 0x27]))"

text \<open>
  The elements the comprehension \<^verbatim>\<open>for gap in gaps[:3]\<close> iterates over: the first three
  elements of a list, the first three characters of a str; a dict does not take a slice
  and the other values are not subscriptable.
\<close>

fun py_first3 :: "json \<Rightarrow> pyexn + json list" where
  "py_first3 (JArr xs) = Inr (take 3 xs)"
| "py_first3 (JStr s) = Inr (map (\<lambda>c. JStr [c]) (take 3 s))"
| "py_first3 (JObj kvs) = Inl (TypeError (''unhashable type: '' @ [CHR 0x27] @ ''slice'' @ [CHR 0x27]))"
| "py_first3 c =
     Inl (TypeError ([CHR 0x27] @ type_name c @ [CHR 0x27] @ '' object is not subscriptable''))"

text \<open>\<^verbatim>\<open>sep.join(xs)\<close> and \<^verbatim>\<open>s.strip()\<close>.\<close>

fun py_join :: "string \<Rightarrow> string list \<Rightarrow> string" where
  "py_join sep [] = []"
| "py_join sep [x] = x"
| "py_join sep (x # y # ys) = x @ sep @ py_join sep (y # ys)"

definition py_isspace :: "char \<Rightarrow> bool" where
  "py_isspace c = (let n = of_char c :: nat in
     (9 \<le> n \<and> n \<le> 13) \<or> (28 \<le> n \<and> n \<le> 32) \<or> n = 133 \<or> n = 160)"

definition py_strip :: "string \<Rightarrow> string" where
  "py_strip s = rev (dropWhile py_isspace (rev (dropWhile py_isspace s)))"

text \<open>Sequencing of computations that may raise, and \<^verbatim>\<open>try: ... except Exception as e: ...\<close>.\<close>

definition bind_exn :: "pyexn + 'a \<Rightarrow> ('a \<Rightarrow> pyexn + 'b) \<Rightarrow> pyexn + 'b" where
  "bind_exn m f = (case m of Inl e \<Rightarrow> Inl e | Inr v \<Rightarrow> f v)"

definition try_except :: "pyexn + 'a \<Rightarrow> (pyexn \<Rightarrow> pyexn + 'a) \<Rightarrow> pyexn + 'a" where
  "try_except body handler = (case body of Inr v \<Rightarrow> Inr v | Inl e \<Rightarrow> handler e)"

section \<open>The collaborators\<close>

text \<open>
  Everything outside the repository that one resume's run consults: the environment
  variable read by \<^verbatim>\<open>get_llm\<close>, the PDF loader (\<^verbatim>\<open>PyPDFLoader(path).load()\<close>, as the
  list of page contents), the three oracle chains (\<^verbatim>\<open>chain.invoke\<close> of prompt, Gemini
  model and JSON parser, as a function of the prompt variables: it raises or returns the
  parsed JSON value, of any shape), the name \<^verbatim>\<open>tempfile\<close> picks, and Python's built-in
  formatting of a value that is not a str. A parse failure of the oracle's text is
  \<open>OutputParserException\<close>; any other failure of the call is \<open>OtherException\<close>.
  Only subclasses of \<^verbatim>\<open>Exception\<close> are modelled (no \<^verbatim>\<open>KeyboardInterrupt\<close>).
\<close>

record env =
  google_api_key :: "string option"
  pdf_loader :: "string \<Rightarrow> pyexn + string list"
  invoke_extraction :: "string \<Rightarrow> pyexn + json"
  invoke_matching :: "string \<Rightarrow> json \<Rightarrow> json \<Rightarrow> json \<Rightarrow> pyexn + json"
  invoke_scoring :: "string \<Rightarrow> json \<Rightarrow> json \<Rightarrow> json \<Rightarrow> pyexn + json"
  tmp_name :: string
  py_repr :: "json \<Rightarrow> string"

text \<open>\<^verbatim>\<open>f"{v}"\<close>: a str is inserted as it is, any other value through \<^verbatim>\<open>str(v)\<close>.\<close>

definition py_str :: "env \<Rightarrow> json \<Rightarrow> string" where
  "py_str w v = (case v of JStr s \<Rightarrow> s | _ \<Rightarrow> py_repr w v)"

section \<open>chains.py\<close>

definition get_llm :: "env \<Rightarrow> pyexn + unit" where
  "get_llm w =
     (let api_key = google_api_key w in
      if api_key = None \<or> api_key = Some [] then
        Inl (ValueError (''GOOGLE_API_KEY not found in environment variables. ''
               @ ''Please add it to your .env file or enter it in the Streamlit sidebar.''))
      else Inr ())"

definition extract_resume_data :: "env \<Rightarrow> string \<Rightarrow> pyexn + json" where
  "extract_resume_data w resume_text_arg =
     try_except
       (bind_exn (get_llm w) (\<lambda>llm. invoke_extraction w resume_text_arg))
       (\<lambda>e. Inr (JObj [(''skills'', JArr []), (''experience'', JArr []),
                        (''education'', JArr []), (''error'', JStr (str_exn e))]))"

definition match_to_jd :: "env \<Rightarrow> string \<Rightarrow> json \<Rightarrow> pyexn + json" where
  "match_to_jd w jd_arg resume_data_arg =
     try_except
       (bind_exn (get_llm w) (\<lambda>llm.
        bind_exn (py_get resume_data_arg ''skills'' (JArr [])) (\<lambda>skills.
        bind_exn (py_get resume_data_arg ''experience'' (JArr [])) (\<lambda>experience.
        bind_exn (py_get resume_data_arg ''education'' (JArr [])) (\<lambda>education.
          invoke_matching w jd_arg skills experience education)))))
       (\<lambda>e. Inr (JObj [(''matches'', JArr []), (''gaps'', JArr []), (''error'', JStr (str_exn e))]))"

definition score_candidate :: "env \<Rightarrow> string \<Rightarrow> json \<Rightarrow> json \<Rightarrow> pyexn + json" where
  "score_candidate w jd_arg resume_data_arg match_data_arg =
     try_except
       (bind_exn (get_llm w) (\<lambda>llm.
        bind_exn (py_get match_data_arg ''matches'' (JArr [])) (\<lambda>matches.
        bind_exn (py_get match_data_arg ''gaps'' (JArr [])) (\<lambda>gaps.
        bind_exn (py_get resume_data_arg ''experience'' (JArr [])) (\<lambda>experience.
          invoke_scoring w jd_arg matches gaps experience)))))
       (\<lambda>e. Inr (JObj [(''score'', JInt 0), (''reasons'', JArr [JStr ''Error in scoring'']),
                        (''suggestions'', JArr []), (''error'', JStr (str_exn e))]))"

section \<open>workflow.py: the state and the stages\<close>

text \<open>
  \<^verbatim>\<open>ScreeningState\<close> is a total \<^verbatim>\<open>TypedDict\<close>; every state the workflow sees has the ten
  keys, so \<^verbatim>\<open>state.get(k)\<close> is the field. The annotations are not enforced: the fields
  written from oracle data hold whatever JSON value arrived. \<open>error\<close> is only ever
  written from a literal or an f-string, so it is text.
\<close>

record ScreeningState =
  jd :: string
  resume_file_path :: string
  resume_text :: string
  resume_data :: json
  match_data :: json
  score :: json
  reasons :: json
  suggestions :: json
  candidate_name :: string
  error :: string

definition load_resume :: "env \<Rightarrow> ScreeningState \<Rightarrow> ScreeningState" where
  "load_resume w st =
     (case pdf_loader w (resume_file_path st) of
        Inr pages \<Rightarrow>
          (let text = py_join [CHR 0x0A] pages in
           if py_strip text = [] then
             st\<lparr>error := ''Empty PDF or failed to extract text'', resume_text := []\<rparr>
           else
             st\<lparr>resume_text := text, error := []\<rparr>)
      | Inl e \<Rightarrow>
          st\<lparr>error := ''PDF loading error: '' @ str_exn e, resume_text := []\<rparr>)"

definition extract_data :: "env \<Rightarrow> ScreeningState \<Rightarrow> ScreeningState" where
  "extract_data w st =
     (if error st \<noteq> [] then st
      else
        (let handler = (\<lambda>s e. s\<lparr>error := ''Data extraction error: '' @ str_exn e,
                                 resume_data := JObj []\<rparr>)
         in case extract_resume_data w (resume_text st) of
              Inl e \<Rightarrow> handler st e
            | Inr rd \<Rightarrow>
                (let st1 = st\<lparr>resume_data := rd\<rparr>
                 in case py_contains ''error'' rd of
                      Inl e \<Rightarrow> handler st1 e
                    | Inr present \<Rightarrow>
                        if present then
                          (case py_getitem rd ''error'' of
                             Inl e \<Rightarrow> handler st1 e
                           | Inr v \<Rightarrow> st1\<lparr>error := ''Extraction error: '' @ py_str w v\<rparr>)
                        else st1)))"

definition match_jd :: "env \<Rightarrow> ScreeningState \<Rightarrow> ScreeningState" where
  "match_jd w st =
     (if error st \<noteq> [] then st
      else
        (let handler = (\<lambda>s e. s\<lparr>error := ''JD matching error: '' @ str_exn e,
                                 match_data := JObj []\<rparr>)
         in case match_to_jd w (jd st) (resume_data st) of
              Inl e \<Rightarrow> handler st e
            | Inr md \<Rightarrow>
                (let st1 = st\<lparr>match_data := md\<rparr>
                 in case py_contains ''error'' md of
                      Inl e \<Rightarrow> handler st1 e
                    | Inr present \<Rightarrow>
                        if present then
                          (case py_getitem md ''error'' of
                             Inl e \<Rightarrow> handler st1 e
                           | Inr v \<Rightarrow> st1\<lparr>error := ''Matching error: '' @ py_str w v\<rparr>)
                        else st1)))"

definition score_candidate_node :: "env \<Rightarrow> ScreeningState \<Rightarrow> ScreeningState" where
  "score_candidate_node w st =
     (if error st \<noteq> [] then
        st\<lparr>score := JInt 0,
           reasons := JArr [JStr (''Processing failed: '' @ error st)],
           suggestions := JArr []\<rparr>
      else
        (let handler = (\<lambda>s e. s\<lparr>error := ''Candidate scoring error: '' @ str_exn e,
                                 score := JInt 0,
                                 reasons := JArr [JStr (''Scoring failed: '' @ str_exn e)],
                                 suggestions := JArr []\<rparr>)
         in case score_candidate w (jd st) (resume_data st) (match_data st) of
              Inl e \<Rightarrow> handler st e
            | Inr sd \<Rightarrow>
          (case py_get sd ''score'' (JInt 0) of
              Inl e \<Rightarrow> handler st e
            | Inr sc \<Rightarrow>
          (let st1 = st\<lparr>score := sc\<rparr>
           in case py_get sd ''reasons'' (JArr []) of
              Inl e \<Rightarrow> handler st1 e
            | Inr rs \<Rightarrow>
          (let st2 = st1\<lparr>reasons := rs\<rparr>
           in case py_get sd ''suggestions'' (JArr []) of
              Inl e \<Rightarrow> handler st2 e
            | Inr sg \<Rightarrow>
          (let st3 = st2\<lparr>suggestions := sg\<rparr>
           in case py_contains ''error'' sd of
              Inl e \<Rightarrow> handler st3 e
            | Inr present \<Rightarrow>
                if present then
                  (case py_getitem sd ''error'' of
                     Inl e \<Rightarrow> handler st3 e
                   | Inr v \<Rightarrow> st3\<lparr>error := ''Scoring error: '' @ py_str w v\<rparr>)
                else st3))))))"

text \<open>The branch predicate and the conditional stage have no handler: what they raise escapes.\<close>

definition should_suggest_improvements :: "ScreeningState \<Rightarrow> pyexn + string" where
  "should_suggest_improvements st =
     bind_exn (py_lt_int (score st) 50) (\<lambda>low. if low then Inr ''suggest'' else Inr ''end'')"

definition suggest_improvements :: "env \<Rightarrow> ScreeningState \<Rightarrow> pyexn + ScreeningState" where
  "suggest_improvements w st =
     (if \<not> truthy (suggestions st) then
        bind_exn (py_get (match_data st) ''gaps'' (JArr [])) (\<lambda>gaps.
          if truthy gaps then
            bind_exn (py_first3 gaps) (\<lambda>first.
              Inr (st\<lparr>suggestions :=
                     JArr (map (\<lambda>gap. JStr (''Develop skills/experience in: '' @ py_str w gap)) first)\<rparr>))
          else
            Inr (st\<lparr>suggestions := JArr [JStr ''Consider gaining more relevant experience'']\<rparr>))
      else Inr st)"

section \<open>workflow.py: the graph, one resume, the batch\<close>

text \<open>
  \<^verbatim>\<open>create_screening_workflow\<close> builds a graph of five nodes: three fixed edges, the
  conditional edge out of \<^verbatim>\<open>score_candidate\<close> (the branch predicate's answer is looked up
  in the path map) and the edge from \<^verbatim>\<open>suggest_improvements\<close> to \<^verbatim>\<open>END\<close>. Invoking
  the compiled graph runs the node, follows the edge, and stops at \<^verbatim>\<open>END\<close>; an exception
  of a node or of the branch predicate ends the run. The run returns the final state; the
  model also records the nodes it executed.
\<close>

datatype node =
    N_load_resume
  | N_extract_data
  | N_match_jd
  | N_score_candidate
  | N_suggest_improvements
  | END

fun run_node :: "env \<Rightarrow> node \<Rightarrow> ScreeningState \<Rightarrow> pyexn + ScreeningState" where
  "run_node w N_load_resume st = Inr (load_resume w st)"
| "run_node w N_extract_data st = Inr (extract_data w st)"
| "run_node w N_match_jd st = Inr (match_jd w st)"
| "run_node w N_score_candidate st = Inr (score_candidate_node w st)"
| "run_node w N_suggest_improvements st = suggest_improvements w st"
| "run_node w END st = Inr st"

definition path_map :: "(string \<times> node) list" where
  "path_map = [(''suggest'', N_suggest_improvements), (''end'', END)]"

fun next_node :: "node \<Rightarrow> ScreeningState \<Rightarrow> pyexn + node" where
  "next_node N_load_resume st = Inr N_extract_data"
| "next_node N_extract_data st = Inr N_match_jd"
| "next_node N_match_jd st = Inr N_score_candidate"
| "next_node N_score_candidate st =
     bind_exn (should_suggest_improvements st) (\<lambda>r.
       case map_of path_map r of Some n \<Rightarrow> Inr n | None \<Rightarrow> Inl (KeyError r))"
| "next_node N_suggest_improvements st = Inr END"
| "next_node END st = Inr END"

fun rank :: "node \<Rightarrow> nat" where
  "rank N_load_resume = 5"
| "rank N_extract_data = 4"
| "rank N_match_jd = 3"
| "rank N_score_candidate = 2"
| "rank N_suggest_improvements = 1"
| "rank END = 0"

function run_graph :: "env \<Rightarrow> node \<Rightarrow> ScreeningState \<Rightarrow> pyexn + (node list \<times> ScreeningState)" where
  "run_graph w n st =
     (if n = END then Inr ([], st)
      else
        (case run_node w n st of
           Inl e \<Rightarrow> Inl e
         | Inr st' \<Rightarrow>
             (case next_node n st' of
                Inl e \<Rightarrow> Inl e
              | Inr n' \<Rightarrow>
                  (case run_graph w n' st' of
                     Inl e \<Rightarrow> Inl e
                   | Inr (visited, final) \<Rightarrow> Inr (n # visited, final)))))"
  by pat_completeness auto
termination
  apply (relation "measure (\<lambda>(w, n, st). rank n)")
   apply simp
  subgoal for w n st st' n'
    by (cases n)
       (auto simp: bind_exn_def should_suggest_improvements_def path_map_def
             split: sum.splits if_splits)
  done

declare run_graph.simps [simp del]

definition workflow_invoke :: "env \<Rightarrow> ScreeningState \<Rightarrow> pyexn + ScreeningState" where
  "workflow_invoke w st = bind_exn (run_graph w N_load_resume st) (\<lambda>(visited, final). Inr final)"

text \<open>The state that enters the ScoreCandidate stage: the first three stages, in order.\<close>

definition state_before_scoring :: "env \<Rightarrow> ScreeningState \<Rightarrow> ScreeningState" where
  "state_before_scoring w s0 = match_jd w (extract_data w (load_resume w s0))"

text \<open>The state that leaves the ScoreCandidate stage: the four fixed edges, in order.\<close>

definition state_after_scoring :: "env \<Rightarrow> ScreeningState \<Rightarrow> ScreeningState" where
  "state_after_scoring w s0 = score_candidate_node w (match_jd w (extract_data w (load_resume w s0)))"

definition initial_state :: "string \<Rightarrow> string \<Rightarrow> string \<Rightarrow> ScreeningState" where
  "initial_state jd_arg path name =
     \<lparr>jd = jd_arg, resume_file_path = path, resume_text = [], resume_data = JObj [],
      match_data = JObj [], score = JInt 0, reasons = JArr [], suggestions = JArr [],
      candidate_name = name, error = []\<rparr>"

text \<open>The output record is a dict; its keys are in the order of the source's literal.\<close>

definition process_resume :: "env \<Rightarrow> string \<Rightarrow> string \<Rightarrow> string \<Rightarrow> pyexn + json" where
  "process_resume w jd_arg path name =
     bind_exn (workflow_invoke w (initial_state jd_arg path name)) (\<lambda>result.
     bind_exn (py_get (match_data result) ''matches'' (JArr [])) (\<lambda>matches.
     bind_exn (py_get (match_data result) ''gaps'' (JArr [])) (\<lambda>gaps.
       Inr (JObj [(''candidate'', JStr name),
                  (''score'', score result),
                  (''reasons'', reasons result),
                  (''suggestions'', suggestions result),
                  (''matches'', matches),
                  (''gaps'', gaps),
                  (''error'', JStr (error result))]))))"

text \<open>
  The batch loop. The \<open>i\<close>-th resume is processed against the collaborators as they
  behave during its run (\<open>ws i\<close>): the oracle need not answer two resumes alike. Writing
  and removing the temporary file are taken to succeed; the \<^verbatim>\<open>finally\<close> clause removes
  the file and lets an exception of \<^verbatim>\<open>process_resume\<close> pass.
\<close>

fun resumes_loop ::
  "(nat \<Rightarrow> env) \<Rightarrow> string \<Rightarrow> nat \<Rightarrow> (string \<times> string) list \<Rightarrow> json list \<Rightarrow> pyexn + json list" where
  "resumes_loop ws jd_arg i [] results = Inr results"
| "resumes_loop ws jd_arg i ((file_name, file_content) # rest) results =
     (let tmp_path = tmp_name (ws i)
      in case process_resume (ws i) jd_arg tmp_path file_name of
           Inl e \<Rightarrow> Inl e
         | Inr result \<Rightarrow> resumes_loop ws jd_arg (Suc i) rest (results @ [result]))"

definition process_multiple_resumes ::
  "(nat \<Rightarrow> env) \<Rightarrow> string \<Rightarrow> (string \<times> string) list \<Rightarrow> pyexn + json list" where
  "process_multiple_resumes ws jd_arg resume_files = resumes_loop ws jd_arg 0 resume_files []"

section \<open>Shapes of oracle data\<close>

text \<open>
  Predicates on the JSON values the oracle returns, used to state what the pipeline
  guarantees for which responses. \<open>score_in_range\<close>: an integer-valued number between 0
  and 100 (a bool is the int 0 or 1). \<open>sliceable\<close>: a list or a text, the values whose
  first three elements \<^verbatim>\<open>gaps[:3]\<close> iterates over. \<open>gaps_usable\<close>: a match result that
  is an object whose gaps are absent, falsy or sliceable. \<open>rest_of_run_safe\<close>, on the
  state that leaves the ScoreCandidate stage: the score is a number, the match result is
  an object, and, when the score is below 50 and there are no suggestions yet, its gaps
  are usable.
\<close>

fun score_in_range :: "json \<Rightarrow> bool" where
  "score_in_range (JInt n) = (0 \<le> n \<and> n \<le> 100)"
| "score_in_range (JBool b) = True"
| "score_in_range (JFloat (Finite q)) = (0 \<le> q \<and> q \<le> 100 \<and> of_int \<lfloor>q\<rfloor> = q)"
| "score_in_range v = False"

fun sliceable :: "json \<Rightarrow> bool" where
  "sliceable (JArr xs) = True"
| "sliceable (JStr s) = True"
| "sliceable v = False"

definition gaps_usable :: "json \<Rightarrow> bool" where
  "gaps_usable md =
     (case md of
        JObj kvs \<Rightarrow> (case map_of kvs ''gaps'' of None \<Rightarrow> True | Some g \<Rightarrow> \<not> truthy g \<or> sliceable g)
      | _ \<Rightarrow> False)"

definition rest_of_run_safe :: "ScreeningState \<Rightarrow> bool" where
  "rest_of_run_safe st =
     (case py_lt_int (score st) 50 of
        Inl e \<Rightarrow> False
      | Inr low \<Rightarrow>
          (case match_data st of
             JObj kvs \<Rightarrow>
               (if low \<and> \<not> truthy (suggestions st) then gaps_usable (match_data st) else True)
           | _ \<Rightarrow> False))"

section \<open>Example inputs\<close>

text \<open>
  Concrete collaborators and states on which the theorems below are evaluated. In
  \<open>ex_env\<close> every call succeeds and the oracle scores the candidate 35, with five gaps
  and no suggestion of its own.
\<close>

definition ex_env :: env where
  "ex_env =
     \<lparr>google_api_key = Some ''key'',
      pdf_loader = (\<lambda>path. Inr [''Jane Doe'', ''Python, 5 years'']),
      invoke_extraction =
        (\<lambda>t. Inr (JObj [(''skills'', JArr [JStr ''Python'']),
                         (''experience'', JArr []), (''education'', JArr [])])),
      invoke_matching =
        (\<lambda>j s x d. Inr (JObj [(''matches'', JArr [JStr ''Python'']),
                               (''gaps'', JArr [JStr ''Kubernetes'', JStr ''AWS'', JStr ''Leadership'',
                                                JStr ''Security'', JStr ''Testing''])])),
      invoke_scoring =
        (\<lambda>j m g x. Inr (JObj [(''score'', JInt 35),
                               (''reasons'', JArr [JStr ''weak skill match'']),
                               (''suggestions'', JArr [])])),
      tmp_name = ''/tmp/tmpa1b2c3.pdf'',
      py_repr = (\<lambda>v. ''<value>'')\<rparr>"

definition ex_state :: ScreeningState where
  "ex_state = initial_state ''Needs Python, 3+ years'' ''/tmp/tmpa1b2c3.pdf'' ''jane.pdf''"

definition ex_failed_state :: ScreeningState where
  "ex_failed_state = ex_state\<lparr>error := ''Empty PDF or failed to extract text''\<rparr>"

definition ex_gaps :: "json list" where
  "ex_gaps = [JStr ''Kubernetes'', JStr ''AWS'', JStr ''Leadership'', JStr ''Security'', JStr ''Testing'']"

definition ex_low_state :: ScreeningState where
  "ex_low_state =
     ex_state\<lparr>match_data := JObj [(''matches'', JArr []), (''gaps'', JArr ex_gaps)],
              score := JInt 35, reasons := JArr [JStr ''weak skill match'']\<rparr>"

definition ex_suggested_state :: ScreeningState where
  "ex_suggested_state = ex_low_state\<lparr>suggestions := JArr [JStr ''Acquire skill Y'']\<rparr>"

text \<open>
  Variations: the scoring call fails (quota), the extraction call fails (timeout), the
  extraction chain returns a bare number, and the oracle scores the candidate 82.
\<close>

definition ex_env_quota :: env where
  "ex_env_quota = ex_env\<lparr>invoke_scoring := (\<lambda>j m g x. Inl (OtherException ''quota''))\<rparr>"

definition ex_env_timeout :: env where
  "ex_env_timeout = ex_env\<lparr>invoke_extraction := (\<lambda>t. Inl (OtherException ''timeout''))\<rparr>"


definition ex_env_good :: env where
  "ex_env_good =
     ex_env\<lparr>invoke_scoring :=
              (\<lambda>j m g x. Inr (JObj [(''score'', JInt 82),
                                     (''reasons'', JArr [JStr ''strong skill match'']),
                                     (''suggestions'', JArr [])]))\<rparr>"

text \<open>
  Further variations: a score of 150, a PDF with blank pages only, a score given as the
  text "75%", and two batches.
\<close>

definition ex_env_150 :: env where
  "ex_env_150 =
     ex_env\<lparr>invoke_scoring :=
              (\<lambda>j m g x. Inr (JObj [(''score'', JInt 150),
                                     (''reasons'', JArr [JStr ''outstanding'']),
                                     (''suggestions'', JArr [])]))\<rparr>"

definition ex_env_blank :: env where
  "ex_env_blank = ex_env\<lparr>pdf_loader := (\<lambda>path. Inr [''  '', []])\<rparr>"

definition ex_env_pct :: env where
  "ex_env_pct =
     ex_env\<lparr>invoke_scoring :=
              (\<lambda>j m g x. Inr (JObj [(''score'', JStr ''75%''),
                                     (''reasons'', JArr [JStr ''good skill match'']),
                                     (''suggestions'', JArr [])]))\<rparr>"

definition ex_batch_pct :: "nat \<Rightarrow> env" where
  "ex_batch_pct i = ex_env_pct"

definition ex_batch :: "nat \<Rightarrow> env" where
  "ex_batch i = (if i = 0 then ex_env_blank else ex_env_good)"

definition ex_files :: "(string \<times> string) list" where
  "ex_files = [(''blank.pdf'', ''%PDF-1.4 a''), (''jane.pdf'', ''%PDF-1.4 b'')]"

definition ex_profile :: json where
  "ex_profile = JObj [(''skills'', JArr [JStr ''Python'']), (''experience'', JArr []), (''education'', JArr [])]"

definition ex_match :: json where
  "ex_match = JObj [(''matches'', JArr [JStr ''Python'']), (''gaps'', JArr ex_gaps)]"

text \<open>
  Oracle data of an unexpected shape: a scoring response that is a list, gaps that are an
  object, a matching response that is a list.
\<close>

definition ex_env_score_list :: env where
  "ex_env_score_list = ex_env\<lparr>invoke_scoring := (\<lambda>j m g x. Inr (JArr [JInt 35]))\<rparr>"


definition ex_env_match_list :: env where
  "ex_env_match_list = ex_env\<lparr>invoke_matching := (\<lambda>j s x d. Inr (JArr [JStr ''Python'']))\<rparr>"

definition ex_env_dict_gaps :: env where
  "ex_env_dict_gaps =
     ex_env\<lparr>invoke_matching :=
              (\<lambda>j s x d. Inr (JObj [(''matches'', JArr []),
                                     (''gaps'', JObj [(''skills'', JArr [JStr ''AWS''])])]))\<rparr>"

definition ex_batch_match_list :: "nat \<Rightarrow> env" where
  "ex_batch_match_list i = ex_env_match_list"

definition ex_batch_dict_gaps :: "nat \<Rightarrow> env" where
  "ex_batch_dict_gaps i = ex_env_dict_gaps"

section \<open>Unfolding the model\<close>

lemmas model_defs =
  load_resume_def extract_data_def match_jd_def score_candidate_node_def
  extract_resume_data_def match_to_jd_def score_candidate_def get_llm_def
  try_except_def bind_exn_def py_strip_def py_isspace_def py_str_def
  suggest_improvements_def should_suggest_improvements_def path_map_def
  initial_state_def state_after_scoring_def

text \<open>The graph has one path of four nodes and one of five: the run, written out.\<close>

lemma run_graph_unroll:
  "run_graph w N_load_resume s0 =
     (let st = state_after_scoring w s0
      in case py_lt_int (score st) 50 of
           Inl e \<Rightarrow> Inl e
         | Inr low \<Rightarrow>
             if low then
               (case suggest_improvements w st of
                  Inl e \<Rightarrow> Inl e
                | Inr st' \<Rightarrow>
                    Inr ([N_load_resume, N_extract_data, N_match_jd, N_score_candidate,
                          N_suggest_improvements], st'))
             else Inr ([N_load_resume, N_extract_data, N_match_jd, N_score_candidate], st))"
  by (simp add: run_graph.simps [of w N_load_resume] run_graph.simps [of w N_extract_data]
        run_graph.simps [of w N_match_jd] run_graph.simps [of w N_score_candidate]
        run_graph.simps [of w N_suggest_improvements] run_graph.simps [of w END]
        should_suggest_improvements_def bind_exn_def path_map_def Let_def state_after_scoring_def
      split: sum.splits)

lemma ex_after_scoring_low:
  "state_after_scoring ex_env ex_state =
     ex_state\<lparr>resume_text := ''Jane Doe'' @ [CHR 0x0A] @ ''Python, 5 years'',
        resume_data := JObj [(''skills'', JArr [JStr ''Python'']), (''experience'', JArr []),
                             (''education'', JArr [])],
        match_data := JObj [(''matches'', JArr [JStr ''Python'']), (''gaps'', JArr ex_gaps)],
        score := JInt 35, reasons := JArr [JStr ''weak skill match''], suggestions := JArr []\<rparr>"
  by (simp add: model_defs ex_env_def ex_state_def ex_gaps_def)

lemma ex_after_scoring_good:
  "state_after_scoring ex_env_good ex_state =
     ex_state\<lparr>resume_text := ''Jane Doe'' @ [CHR 0x0A] @ ''Python, 5 years'',
        resume_data := JObj [(''skills'', JArr [JStr ''Python'']), (''experience'', JArr []),
                             (''education'', JArr [])],
        match_data := JObj [(''matches'', JArr [JStr ''Python'']), (''gaps'', JArr ex_gaps)],
        score := JInt 82, reasons := JArr [JStr ''strong skill match''], suggestions := JArr []\<rparr>"
  by (simp add: model_defs ex_env_def ex_state_def ex_gaps_def ex_env_good_def)

section \<open>What the wrappers and the stages return\<close>

lemma extract_resume_data_cases:
  "(\<exists>v. invoke_extraction w t = Inr v \<and> extract_resume_data w t = Inr v)
   \<or> (\<exists>e. extract_resume_data w t =
            Inr (JObj [(''skills'', JArr []), (''experience'', JArr []),
                       (''education'', JArr []), (''error'', JStr (str_exn e))]))"
  by (auto simp: extract_resume_data_def try_except_def bind_exn_def split: sum.splits)

lemma match_to_jd_cases:
  "(\<exists>s x d v. invoke_matching w j s x d = Inr v \<and> match_to_jd w j rd = Inr v)
   \<or> (\<exists>e. match_to_jd w j rd =
            Inr (JObj [(''matches'', JArr []), (''gaps'', JArr []), (''error'', JStr (str_exn e))]))"
  by (auto simp: match_to_jd_def try_except_def bind_exn_def split: sum.splits)

lemma score_candidate_cases:
  "(\<exists>m g x v. invoke_scoring w j m g x = Inr v \<and> score_candidate w j rd md = Inr v)
   \<or> (\<exists>e. score_candidate w j rd md =
            Inr (JObj [(''score'', JInt 0), (''reasons'', JArr [JStr ''Error in scoring'']),
                       (''suggestions'', JArr []), (''error'', JStr (str_exn e))]))"
  by (auto simp: score_candidate_def try_except_def bind_exn_def split: sum.splits)

lemma score_node_on_object:
  "error st = [] \<Longrightarrow> score_candidate w (jd st) (resume_data st) (match_data st) = Inr (JObj kvs) \<Longrightarrow>
     score_candidate_node w st =
       st\<lparr>score := (case map_of kvs ''score'' of Some v \<Rightarrow> v | None \<Rightarrow> JInt 0),
          reasons := (case map_of kvs ''reasons'' of Some v \<Rightarrow> v | None \<Rightarrow> JArr []),
          suggestions := (case map_of kvs ''suggestions'' of Some v \<Rightarrow> v | None \<Rightarrow> JArr []),
          error := (case map_of kvs ''error'' of Some v \<Rightarrow> ''Scoring error: '' @ py_str w v | None \<Rightarrow> [])\<rparr>"
  by (auto simp: score_candidate_node_def split: option.splits)

lemma score_node_on_other:
  "error st = [] \<Longrightarrow> score_candidate w (jd st) (resume_data st) (match_data st) = Inr v \<Longrightarrow>
     py_get v ''score'' (JInt 0) = Inl e \<Longrightarrow>
     score_candidate_node w st =
       st\<lparr>error := ''Candidate scoring error: '' @ str_exn e, score := JInt 0,
          reasons := JArr [JStr (''Scoring failed: '' @ str_exn e)], suggestions := JArr []\<rparr>"
  by (simp add: score_candidate_node_def)

lemma py_get_cases:
  "(\<exists>kvs. v = JObj kvs) \<or> (\<exists>e. py_get v key dflt = Inl e)"
  by (cases v) auto

lemma suggest_keeps:
  "suggest_improvements w st = Inr st' \<Longrightarrow>
     score st' = score st \<and> reasons st' = reasons st \<and> error st' = error st
     \<and> match_data st' = match_data st \<and> candidate_name st' = candidate_name st"
  by (auto simp: suggest_improvements_def bind_exn_def split: sum.splits if_splits)

lemma workflow_invoke_unroll:
  "workflow_invoke w s0 =
     (case py_lt_int (score (state_after_scoring w s0)) 50 of
        Inl e \<Rightarrow> Inl e
      | Inr low \<Rightarrow> if low then suggest_improvements w (state_after_scoring w s0)
                   else Inr (state_after_scoring w s0))"
  by (simp add: workflow_invoke_def run_graph_unroll bind_exn_def Let_def split: sum.splits)

lemma workflow_final_fields:
  "workflow_invoke w s0 = Inr final \<Longrightarrow>
     score final = score (state_after_scoring w s0)
     \<and> reasons final = reasons (state_after_scoring w s0)
     \<and> error final = error (state_after_scoring w s0)
     \<and> match_data final = match_data (state_after_scoring w s0)"
  by (auto simp: workflow_invoke_unroll split: sum.splits if_splits dest: suggest_keeps)

lemma score_after_node:
  "score (score_candidate_node w st) = JInt 0
   \<or> (\<exists>m g x kvs v. invoke_scoring w (jd st) m g x = Inr (JObj kvs) \<and> map_of kvs ''score'' = Some v
         \<and> score (score_candidate_node w st) = v)"
proof (cases "error st = []")
  case False
  then show ?thesis by (simp add: score_candidate_node_def)
next
  case True
  from score_candidate_cases [of w "jd st" "resume_data st" "match_data st"]
  show ?thesis
  proof (elim disjE exE conjE)
    fix e
    assume "score_candidate w (jd st) (resume_data st) (match_data st) =
            Inr (JObj [(''score'', JInt 0), (''reasons'', JArr [JStr ''Error in scoring'']),
                       (''suggestions'', JArr []), (''error'', JStr (str_exn e))])"
    from score_node_on_object [OF True this] show ?thesis by simp
  next
    fix m g x v
    assume inv: "invoke_scoring w (jd st) m g x = Inr v"
      and sc: "score_candidate w (jd st) (resume_data st) (match_data st) = Inr v"
    from py_get_cases [of v "''score''" "JInt 0"] show ?thesis
    proof (elim disjE exE)
      fix kvs assume v: "v = JObj kvs"
      from score_node_on_object [OF True sc [unfolded v]] inv v
      show ?thesis by (cases "map_of kvs ''score''") auto
    next
      fix e assume "py_get v ''score'' (JInt 0) = Inl e"
      from score_node_on_other [OF True sc this] show ?thesis by simp
    qed
  qed
qed

lemma after_before: "state_after_scoring w s0 = score_candidate_node w (state_before_scoring w s0)"
  by (simp add: state_after_scoring_def state_before_scoring_def)

lemma score_candidate_raised:
  "get_llm w = Inl e
   \<or> (get_llm w = Inr () \<and> py_get md ''matches'' (JArr []) = Inl e)
   \<or> (get_llm w = Inr () \<and> py_get md ''matches'' (JArr []) = Inr mt
       \<and> py_get md ''gaps'' (JArr []) = Inr gp \<and> py_get rd ''experience'' (JArr []) = Inl e)
   \<or> (get_llm w = Inr () \<and> py_get md ''matches'' (JArr []) = Inr mt
       \<and> py_get md ''gaps'' (JArr []) = Inr gp \<and> py_get rd ''experience'' (JArr []) = Inr xp
       \<and> invoke_scoring w j mt gp xp = Inl e) \<Longrightarrow>
   score_candidate w j rd md =
     Inr (JObj [(''score'', JInt 0), (''reasons'', JArr [JStr ''Error in scoring'']),
                (''suggestions'', JArr []), (''error'', JStr (str_exn e))])"
  by (auto simp: score_candidate_def try_except_def bind_exn_def)

lemma score_candidate_returned:
  "get_llm w = Inr () \<Longrightarrow> py_get md ''matches'' (JArr []) = Inr mt \<Longrightarrow>
   py_get md ''gaps'' (JArr []) = Inr gp \<Longrightarrow> py_get rd ''experience'' (JArr []) = Inr xp \<Longrightarrow>
   invoke_scoring w j mt gp xp = Inr v \<Longrightarrow>
   score_candidate w j rd md = Inr v"
  by (simp add: score_candidate_def try_except_def bind_exn_def)

lemma score_candidate_body_cases:
  "(\<exists>e. score_candidate w j rd md =
            Inr (JObj [(''score'', JInt 0), (''reasons'', JArr [JStr ''Error in scoring'']),
                       (''suggestions'', JArr []), (''error'', JStr (str_exn e))]))
   \<or> (\<exists>mt gp xp v. get_llm w = Inr () \<and> py_get md ''matches'' (JArr []) = Inr mt
         \<and> py_get md ''gaps'' (JArr []) = Inr gp \<and> py_get rd ''experience'' (JArr []) = Inr xp
         \<and> invoke_scoring w j mt gp xp = Inr v \<and> score_candidate w j rd md = Inr v)"
  by (auto simp: score_candidate_def try_except_def bind_exn_def split: sum.splits)

lemma suggest_returns_iff:
  "(\<exists>st'. suggest_improvements w st = Inr st') \<longleftrightarrow> truthy (suggestions st) \<or> gaps_usable (match_data st)"
proof (cases "truthy (suggestions st)")
  case True
  then show ?thesis by (simp add: suggest_improvements_def)
next
  case False
  show ?thesis
  proof (cases "match_data st")
    case (JObj kvs)
    show ?thesis
    proof (cases "map_of kvs ''gaps''")
      case None
      with False JObj show ?thesis
        by (simp add: suggest_improvements_def bind_exn_def gaps_usable_def)
    next
      case (Some g)
      with False JObj show ?thesis
        by (cases g) (auto simp: suggest_improvements_def bind_exn_def gaps_usable_def)
    qed
  qed (use False in \<open>simp_all add: suggest_improvements_def bind_exn_def gaps_usable_def\<close>)
qed

lemma workflow_returns_iff:
  "(\<exists>final. workflow_invoke w s0 = Inr final \<and> (\<exists>kvs. match_data final = JObj kvs))
     \<longleftrightarrow> rest_of_run_safe (state_after_scoring w s0)"
proof -
  define st where "st = state_after_scoring w s0"
  show ?thesis
  proof (cases "py_lt_int (score st) 50")
    case (Inl e)
    then show ?thesis
      by (simp add: workflow_invoke_unroll rest_of_run_safe_def st_def [symmetric])
  next
    case (Inr low)
    show ?thesis
    proof (cases low)
      case False
      with Inr show ?thesis
        by (cases "match_data st")
           (simp_all add: workflow_invoke_unroll rest_of_run_safe_def st_def [symmetric])
    next
      case True
      have keep: "\<And>st'. suggest_improvements w st = Inr st' \<Longrightarrow> match_data st' = match_data st"
        by (simp add: suggest_keeps)
      have "(\<exists>final. suggest_improvements w st = Inr final \<and> (\<exists>kvs. match_data final = JObj kvs))
            \<longleftrightarrow> (\<exists>st'. suggest_improvements w st = Inr st') \<and> (\<exists>kvs. match_data st = JObj kvs)"
        using keep by metis
      also have "\<dots> \<longleftrightarrow> (truthy (suggestions st) \<or> gaps_usable (match_data st))
                        \<and> (\<exists>kvs. match_data st = JObj kvs)"
        by (simp add: suggest_returns_iff)
      also have "\<dots> \<longleftrightarrow> rest_of_run_safe st"
        using Inr True by (cases "match_data st") (auto simp: rest_of_run_safe_def)
      finally show ?thesis
        using Inr True by (simp add: workflow_invoke_unroll st_def [symmetric])
    qed
  qed
qed

lemma process_resume_iff:
  "(\<exists>r. process_resume w j p name = Inr r)
     \<longleftrightarrow> rest_of_run_safe (state_after_scoring w (initial_state j p name))"
proof -
  have "(\<exists>r. process_resume w j p name = Inr r)
        \<longleftrightarrow> (\<exists>final. workflow_invoke w (initial_state j p name) = Inr final
                      \<and> (\<exists>kvs. match_data final = JObj kvs))"
  proof
    assume "\<exists>r. process_resume w j p name = Inr r"
    then obtain r where r: "process_resume w j p name = Inr r" ..
    then obtain final where f: "workflow_invoke w (initial_state j p name) = Inr final"
      by (cases "workflow_invoke w (initial_state j p name)")
         (simp_all add: process_resume_def bind_exn_def)
    with r have "\<exists>kvs. match_data final = JObj kvs"
      by (cases "match_data final") (simp_all add: process_resume_def bind_exn_def)
    with f show "\<exists>final. workflow_invoke w (initial_state j p name) = Inr final
                      \<and> (\<exists>kvs. match_data final = JObj kvs)" by blast
  next
    assume "\<exists>final. workflow_invoke w (initial_state j p name) = Inr final
                      \<and> (\<exists>kvs. match_data final = JObj kvs)"
    then show "\<exists>r. process_resume w j p name = Inr r"
      by (auto simp: process_resume_def bind_exn_def)
  qed
  then show ?thesis by (simp add: workflow_returns_iff)
qed

lemma process_resume_record:
  "process_resume w j p name = Inr r \<Longrightarrow>
     \<exists>sc rs sg mt gp er.
       r = JObj [(''candidate'', JStr name), (''score'', sc), (''reasons'', rs),
                 (''suggestions'', sg), (''matches'', mt), (''gaps'', gp), (''error'', JStr er)]"
  by (auto simp: process_resume_def bind_exn_def split: sum.splits)

lemma resumes_loop_all:
  "(\<forall>i<length files. \<exists>r. process_resume (ws (k + i)) j (tmp_name (ws (k + i))) (fst (files ! i)) = Inr r) \<Longrightarrow>
     \<exists>rs. resumes_loop ws j k files acc = Inr (acc @ rs) \<and> length rs = length files
        \<and> (\<forall>i<length files.
              process_resume (ws (k + i)) j (tmp_name (ws (k + i))) (fst (files ! i)) = Inr (rs ! i))"
proof (induction files arbitrary: k acc)
  case Nil
  then show ?case by simp
next
  case (Cons f rest)
  obtain name content where f: "f = (name, content)" by (cases f)
  from Cons.prems [rule_format, of 0] f
  obtain r where r: "process_resume (ws k) j (tmp_name (ws k)) name = Inr r" by auto
  have "\<forall>i<length rest. \<exists>r. process_resume (ws (Suc k + i)) j (tmp_name (ws (Suc k + i))) (fst (rest ! i)) = Inr r"
  proof (intro allI impI)
    fix i assume "i < length rest"
    with Cons.prems [rule_format, of "Suc i"]
    show "\<exists>r. process_resume (ws (Suc k + i)) j (tmp_name (ws (Suc k + i))) (fst (rest ! i)) = Inr r"
      by simp
  qed
  from Cons.IH [OF this, of "acc @ [r]"]
  obtain rs where loop: "resumes_loop ws j (Suc k) rest (acc @ [r]) = Inr ((acc @ [r]) @ rs)"
    and len: "length rs = length rest"
    and each: "\<forall>i<length rest.
        process_resume (ws (Suc k + i)) j (tmp_name (ws (Suc k + i))) (fst (rest ! i)) = Inr (rs ! i)"
    by blast
  have "resumes_loop ws j k (f # rest) acc = Inr (acc @ (r # rs))"
    using f r loop by simp
  moreover have "length (r # rs) = length (f # rest)" using len by simp
  moreover have "\<forall>i<length (f # rest).
      process_resume (ws (k + i)) j (tmp_name (ws (k + i))) (fst ((f # rest) ! i)) = Inr ((r # rs) ! i)"
  proof (intro allI impI)
    fix i assume i: "i < length (f # rest)"
    show "process_resume (ws (k + i)) j (tmp_name (ws (k + i))) (fst ((f # rest) ! i)) = Inr ((r # rs) ! i)"
    proof (cases i)
      case 0
      with r f show ?thesis by simp
    next
      case (Suc i')
      with i each [rule_format, of i'] show ?thesis by simp
    qed
  qed
  ultimately show ?case by blast
qed

lemma resumes_loop_returned:
  "resumes_loop ws j k files acc = Inr out \<Longrightarrow>
     \<forall>i<length files. \<exists>r. process_resume (ws (k + i)) j (tmp_name (ws (k + i))) (fst (files ! i)) = Inr r"
proof (induction files arbitrary: k acc)
  case Nil
  then show ?case by simp
next
  case (Cons f rest)
  obtain name content where f: "f = (name, content)" by (cases f)
  from Cons.prems f obtain r where r: "process_resume (ws k) j (tmp_name (ws k)) name = Inr r"
    and loop: "resumes_loop ws j (Suc k) rest (acc @ [r]) = Inr out"
    by (cases "process_resume (ws k) j (tmp_name (ws k)) name") simp_all
  from Cons.IH [OF loop]
  have rest: "\<forall>i<length rest. \<exists>r. process_resume (ws (Suc k + i)) j (tmp_name (ws (Suc k + i))) (fst (rest ! i)) = Inr r" .
  show ?case
  proof (intro allI impI)
    fix i assume i: "i < length (f # rest)"
    show "\<exists>r. process_resume (ws (k + i)) j (tmp_name (ws (k + i))) (fst ((f # rest) ! i)) = Inr r"
    proof (cases i)
      case 0
      with r f show ?thesis by simp
    next
      case (Suc i')
      with i rest [rule_format, of i'] show ?thesis by simp
    qed
  qed
qed

section \<open>The ScoreCandidate stage after an upstream failure\<close>

text \<open>
  Claim C1. For every state entering the ScoreCandidate stage whose error field is
  non-empty, the stage returns the state with score 0, reasons the one-element list
  "Processing failed: " followed by the error, suggestions the empty list, and the error
  field (as every other field) unchanged.
\<close>

theorem score_node_after_error:
  "error st \<noteq> [] \<Longrightarrow>
     score_candidate_node w st =
       st\<lparr>score := JInt 0,
          reasons := JArr [JStr (''Processing failed: '' @ error st)],
          suggestions := JArr []\<rparr>
     \<and> error (score_candidate_node w st) = error st"
  by (simp add: score_candidate_node_def)

theorem score_node_after_error_witness:
  "error ex_failed_state \<noteq> []
   \<and> score (score_candidate_node ex_env ex_failed_state) = JInt 0
   \<and> reasons (score_candidate_node ex_env ex_failed_state) =
       JArr [JStr ''Processing failed: Empty PDF or failed to extract text'']
   \<and> suggestions (score_candidate_node ex_env ex_failed_state) = JArr []
   \<and> error (score_candidate_node ex_env ex_failed_state) = ''Empty PDF or failed to extract text''"
  using score_node_after_error [of ex_failed_state ex_env]
  by (simp add: ex_failed_state_def ex_state_def initial_state_def)

section \<open>The SuggestImprovements stage\<close>




lemma suggest_nonempty_id:
  "truthy (suggestions st) \<Longrightarrow> suggest_improvements w st = Inr st"
  by (simp add: suggest_improvements_def)

lemma suggest_result_truthy:
  "suggest_improvements w st = Inr st' \<Longrightarrow> truthy (suggestions st')"
  by (cases "truthy (suggestions st)")
     (auto simp: suggest_improvements_def bind_exn_def
           split: sum.splits if_splits elim!: py_first3.elims)

text \<open>
  Claim C6. SuggestImprovements is idempotent: on a state whose suggestions are
  non-empty (truthy, as the stage tests them) it returns the state unchanged, and for any
  input state running the stage twice in succession equals running it once (also when
  the stage raises).
\<close>

theorem suggest_idempotent:
  "(truthy (suggestions st) \<longrightarrow> suggest_improvements w st = Inr st)
   \<and> bind_exn (suggest_improvements w st) (suggest_improvements w) = suggest_improvements w st"
proof
  show "truthy (suggestions st) \<longrightarrow> suggest_improvements w st = Inr st"
    by (simp add: suggest_nonempty_id)
next
  show "bind_exn (suggest_improvements w st) (suggest_improvements w) = suggest_improvements w st"
  proof (cases "suggest_improvements w st")
    case (Inl e)
    then show ?thesis by (simp add: bind_exn_def)
  next
    case (Inr st')
    then have "truthy (suggestions st')" by (rule suggest_result_truthy)
    then have "suggest_improvements w st' = Inr st'" by (rule suggest_nonempty_id)
    with Inr show ?thesis by (simp add: bind_exn_def)
  qed
qed

theorem suggest_idempotent_witness:
  "truthy (suggestions ex_suggested_state)
   \<and> suggest_improvements ex_env ex_suggested_state = Inr ex_suggested_state
   \<and> bind_exn (suggest_improvements ex_env ex_low_state) (suggest_improvements ex_env)
       = suggest_improvements ex_env ex_low_state"
  using suggest_idempotent [of ex_suggested_state ex_env] suggest_idempotent [of ex_low_state ex_env]
  by (simp add: ex_suggested_state_def)

section \<open>The branch after scoring\<close>

text \<open>
  Claim C4. For every state leaving the ScoreCandidate stage, the workflow enters the
  SuggestImprovements stage if and only if the test score < 50 holds; when the test is
  false (for a number: score >= 50) the workflow goes directly to the end, the run has
  executed the four fixed stages only, and the final state is the state the scoring stage
  produced, suggestions included.
\<close>

theorem branch_after_scoring:
  "(next_node N_score_candidate st = Inr N_suggest_improvements \<longleftrightarrow> py_lt_int (score st) 50 = Inr True)
   \<and> (py_lt_int (score st) 50 = Inr False \<longrightarrow> next_node N_score_candidate st = Inr END)
   \<and> (py_lt_int (score (state_after_scoring w s0)) 50 = Inr False \<longrightarrow>
        run_graph w N_load_resume s0 =
          Inr ([N_load_resume, N_extract_data, N_match_jd, N_score_candidate], state_after_scoring w s0))
   \<and> (py_lt_int (score (state_after_scoring w s0)) 50 = Inr True \<longrightarrow>
        run_graph w N_load_resume s0 =
          bind_exn (suggest_improvements w (state_after_scoring w s0)) (\<lambda>st'.
            Inr ([N_load_resume, N_extract_data, N_match_jd, N_score_candidate, N_suggest_improvements], st')))
   \<and> (py_lt_int (JInt i) 50 = Inr False \<longleftrightarrow> 50 \<le> i)
   \<and> (py_lt_int (JFloat (Finite q)) 50 = Inr False \<longleftrightarrow> 50 \<le> q)"
proof (intro conjI)
  show "next_node N_score_candidate st = Inr N_suggest_improvements \<longleftrightarrow> py_lt_int (score st) 50 = Inr True"
    by (auto simp: should_suggest_improvements_def bind_exn_def path_map_def split: sum.splits)
  show "py_lt_int (score st) 50 = Inr False \<longrightarrow> next_node N_score_candidate st = Inr END"
    by (simp add: should_suggest_improvements_def bind_exn_def path_map_def)
  show "py_lt_int (score (state_after_scoring w s0)) 50 = Inr False \<longrightarrow>
        run_graph w N_load_resume s0 =
          Inr ([N_load_resume, N_extract_data, N_match_jd, N_score_candidate], state_after_scoring w s0)"
    by (simp add: run_graph_unroll Let_def)
  show "py_lt_int (score (state_after_scoring w s0)) 50 = Inr True \<longrightarrow>
        run_graph w N_load_resume s0 =
          bind_exn (suggest_improvements w (state_after_scoring w s0)) (\<lambda>st'.
            Inr ([N_load_resume, N_extract_data, N_match_jd, N_score_candidate, N_suggest_improvements], st'))"
    by (simp add: run_graph_unroll Let_def bind_exn_def)
  show "py_lt_int (JInt i) 50 = Inr False \<longleftrightarrow> 50 \<le> i" by auto
  show "py_lt_int (JFloat (Finite q)) 50 = Inr False \<longleftrightarrow> 50 \<le> q" by auto
qed

theorem branch_after_scoring_witness:
  "py_lt_int (score (state_after_scoring ex_env_good ex_state)) 50 = Inr False
   \<and> next_node N_score_candidate (state_after_scoring ex_env_good ex_state) = Inr END
   \<and> run_graph ex_env_good N_load_resume ex_state =
       Inr ([N_load_resume, N_extract_data, N_match_jd, N_score_candidate],
            state_after_scoring ex_env_good ex_state)
   \<and> suggestions (state_after_scoring ex_env_good ex_state) = JArr []
   \<and> py_lt_int (score (state_after_scoring ex_env ex_state)) 50 = Inr True
   \<and> next_node N_score_candidate (state_after_scoring ex_env ex_state) = Inr N_suggest_improvements
   \<and> run_graph ex_env N_load_resume ex_state =
       bind_exn (suggest_improvements ex_env (state_after_scoring ex_env ex_state)) (\<lambda>st'.
         Inr ([N_load_resume, N_extract_data, N_match_jd, N_score_candidate, N_suggest_improvements], st'))"
  using branch_after_scoring [of "state_after_scoring ex_env_good ex_state" ex_env_good ex_state 82 82]
        branch_after_scoring [of "state_after_scoring ex_env ex_state" ex_env ex_state 35 35]
  by (simp add: ex_after_scoring_low ex_after_scoring_good)

section \<open>Stickiness of the error field\<close>

text \<open>
  Claim C7, as stated, fails for LoadResume: the stage overwrites the error field with
  the outcome of loading and empties it when text was extracted.
\<close>

theorem load_resume_clears_error:
  "error ex_failed_state \<noteq> [] \<and> error (load_resume ex_env ex_failed_state) = []"
  by (simp add: model_defs ex_env_def ex_state_def ex_gaps_def ex_failed_state_def)

text \<open>
  Claim C7, amended. For every stage after LoadResume and every input state whose error
  field is non-empty: ExtractData and MatchJD return the state unchanged, ScoreCandidate
  returns a state with the same error, and so does SuggestImprovements whenever it
  returns a state. LoadResume, the entry stage, sets the error from the outcome of
  loading alone: it leaves it empty exactly when the loader returned pages whose text is
  not blank.
\<close>

theorem error_sticky_after_load:
  "error st \<noteq> [] \<Longrightarrow>
     extract_data w st = st
     \<and> match_jd w st = st
     \<and> error (score_candidate_node w st) = error st
     \<and> (\<forall>st'. suggest_improvements w st = Inr st' \<longrightarrow> error st' = error st)
     \<and> (error (load_resume w st) = [] \<longleftrightarrow>
          (\<exists>pages. pdf_loader w (resume_file_path st) = Inr pages
                   \<and> py_strip (py_join [CHR 0x0A] pages) \<noteq> []))"
  by (auto simp: extract_data_def match_jd_def score_candidate_node_def suggest_improvements_def
        load_resume_def bind_exn_def Let_def split: sum.splits if_splits)

theorem error_sticky_after_load_witness:
  "error ex_failed_state \<noteq> []
   \<and> extract_data ex_env ex_failed_state = ex_failed_state
   \<and> match_jd ex_env ex_failed_state = ex_failed_state
   \<and> error (score_candidate_node ex_env ex_failed_state) = error ex_failed_state
   \<and> suggest_improvements ex_env ex_failed_state =
       Inr (ex_failed_state\<lparr>suggestions := JArr [JStr ''Consider gaining more relevant experience'']\<rparr>)
   \<and> error (ex_failed_state\<lparr>suggestions := JArr [JStr ''Consider gaining more relevant experience'']\<rparr>)
       = error ex_failed_state"
  using error_sticky_after_load [of ex_failed_state ex_env]
  by (simp add: model_defs ex_env_def ex_state_def ex_gaps_def ex_failed_state_def)

section \<open>Failures of the extraction stage\<close>




section \<open>The oracle wrappers\<close>

text \<open>
  Claim C10. The wrappers \<^verbatim>\<open>extract_resume_data\<close>, \<^verbatim>\<open>match_to_jd\<close> and
  \<^verbatim>\<open>score_candidate\<close> never raise: for every input and every behaviour of the
  collaborators each returns a value, which is either what the oracle chain returned or
  the wrapper's default object with the exception's message under "error" (empty skills,
  experience and education; empty matches and gaps; score 0 with the placeholder reason).
  Whenever the body of the wrapper raises (no API key, an input that is not an object, the
  chain itself), the default object with that message is what it returns.
\<close>

theorem wrappers_never_raise:
  "(\<exists>v. extract_resume_data w t = Inr v
        \<and> (invoke_extraction w t = Inr v
           \<or> (\<exists>e. v = JObj [(''skills'', JArr []), (''experience'', JArr []),
                            (''education'', JArr []), (''error'', JStr (str_exn e))])))
   \<and> (\<exists>v. match_to_jd w j rd = Inr v
        \<and> ((\<exists>s x d. invoke_matching w j s x d = Inr v)
           \<or> (\<exists>e. v = JObj [(''matches'', JArr []), (''gaps'', JArr []),
                            (''error'', JStr (str_exn e))])))
   \<and> (\<exists>v. score_candidate w j rd md = Inr v
        \<and> ((\<exists>m g x. invoke_scoring w j m g x = Inr v)
           \<or> (\<exists>e. v = JObj [(''score'', JInt 0), (''reasons'', JArr [JStr ''Error in scoring'']),
                            (''suggestions'', JArr []), (''error'', JStr (str_exn e))])))
   \<and> (get_llm w = Inl e1 \<or> (get_llm w = Inr () \<and> invoke_extraction w t = Inl e1) \<longrightarrow>
        extract_resume_data w t =
          Inr (JObj [(''skills'', JArr []), (''experience'', JArr []),
                     (''education'', JArr []), (''error'', JStr (str_exn e1))]))
   \<and> (get_llm w = Inl e1
        \<or> (get_llm w = Inr () \<and> py_get rd ''skills'' (JArr []) = Inl e1)
        \<or> (get_llm w = Inr () \<and> py_get rd ''skills'' (JArr []) = Inr sk
            \<and> py_get rd ''experience'' (JArr []) = Inr xp \<and> py_get rd ''education'' (JArr []) = Inr ed
            \<and> invoke_matching w j sk xp ed = Inl e1) \<longrightarrow>
        match_to_jd w j rd =
          Inr (JObj [(''matches'', JArr []), (''gaps'', JArr []), (''error'', JStr (str_exn e1))]))
   \<and> (get_llm w = Inl e1
        \<or> (get_llm w = Inr () \<and> py_get md ''matches'' (JArr []) = Inl e1)
        \<or> (get_llm w = Inr () \<and> py_get md ''matches'' (JArr []) = Inr mt
            \<and> py_get md ''gaps'' (JArr []) = Inr gp \<and> py_get rd ''experience'' (JArr []) = Inl e1)
        \<or> (get_llm w = Inr () \<and> py_get md ''matches'' (JArr []) = Inr mt
            \<and> py_get md ''gaps'' (JArr []) = Inr gp \<and> py_get rd ''experience'' (JArr []) = Inr xp
            \<and> invoke_scoring w j mt gp xp = Inl e1) \<longrightarrow>
        score_candidate w j rd md =
          Inr (JObj [(''score'', JInt 0), (''reasons'', JArr [JStr ''Error in scoring'']),
                     (''suggestions'', JArr []), (''error'', JStr (str_exn e1))]))"
proof (intro conjI)
  show "\<exists>v. extract_resume_data w t = Inr v
        \<and> (invoke_extraction w t = Inr v
           \<or> (\<exists>e. v = JObj [(''skills'', JArr []), (''experience'', JArr []),
                            (''education'', JArr []), (''error'', JStr (str_exn e))]))"
    using extract_resume_data_cases [of w t] by auto
next
  show "\<exists>v. match_to_jd w j rd = Inr v
        \<and> ((\<exists>s x d. invoke_matching w j s x d = Inr v)
           \<or> (\<exists>e. v = JObj [(''matches'', JArr []), (''gaps'', JArr []),
                            (''error'', JStr (str_exn e))]))"
    using match_to_jd_cases [of w j rd] by auto
next
  show "\<exists>v. score_candidate w j rd md = Inr v
        \<and> ((\<exists>m g x. invoke_scoring w j m g x = Inr v)
           \<or> (\<exists>e. v = JObj [(''score'', JInt 0), (''reasons'', JArr [JStr ''Error in scoring'']),
                            (''suggestions'', JArr []), (''error'', JStr (str_exn e))]))"
    using score_candidate_cases [of w j rd md] by auto
next
  show "get_llm w = Inl e1 \<or> (get_llm w = Inr () \<and> invoke_extraction w t = Inl e1) \<longrightarrow>
        extract_resume_data w t =
          Inr (JObj [(''skills'', JArr []), (''experience'', JArr []),
                     (''education'', JArr []), (''error'', JStr (str_exn e1))])"
    by (auto simp: extract_resume_data_def try_except_def bind_exn_def)
next
  show "get_llm w = Inl e1
        \<or> (get_llm w = Inr () \<and> py_get rd ''skills'' (JArr []) = Inl e1)
        \<or> (get_llm w = Inr () \<and> py_get rd ''skills'' (JArr []) = Inr sk
            \<and> py_get rd ''experience'' (JArr []) = Inr xp \<and> py_get rd ''education'' (JArr []) = Inr ed
            \<and> invoke_matching w j sk xp ed = Inl e1) \<longrightarrow>
        match_to_jd w j rd =
          Inr (JObj [(''matches'', JArr []), (''gaps'', JArr []), (''error'', JStr (str_exn e1))])"
    by (auto simp: match_to_jd_def try_except_def bind_exn_def)
next
  show "get_llm w = Inl e1
        \<or> (get_llm w = Inr () \<and> py_get md ''matches'' (JArr []) = Inl e1)
        \<or> (get_llm w = Inr () \<and> py_get md ''matches'' (JArr []) = Inr mt
            \<and> py_get md ''gaps'' (JArr []) = Inr gp \<and> py_get rd ''experience'' (JArr []) = Inl e1)
        \<or> (get_llm w = Inr () \<and> py_get md ''matches'' (JArr []) = Inr mt
            \<and> py_get md ''gaps'' (JArr []) = Inr gp \<and> py_get rd ''experience'' (JArr []) = Inr xp
            \<and> invoke_scoring w j mt gp xp = Inl e1) \<longrightarrow>
        score_candidate w j rd md =
          Inr (JObj [(''score'', JInt 0), (''reasons'', JArr [JStr ''Error in scoring'']),
                     (''suggestions'', JArr []), (''error'', JStr (str_exn e1))])"
    by (auto simp: score_candidate_def try_except_def bind_exn_def)
qed

theorem wrappers_never_raise_witness:
  "get_llm ex_env_timeout = Inr ()
   \<and> invoke_extraction ex_env_timeout ''Jane Doe'' = Inl (OtherException ''timeout'')
   \<and> extract_resume_data ex_env_timeout ''Jane Doe'' =
       Inr (JObj [(''skills'', JArr []), (''experience'', JArr []),
                  (''education'', JArr []), (''error'', JStr ''timeout'')])
   \<and> py_get (JArr []) ''skills'' (JArr []) =
       Inl (AttributeError ([CHR 0x27] @ ''list'' @ [CHR 0x27] @ '' object has no attribute ''
                            @ [CHR 0x27] @ ''get'' @ [CHR 0x27]))
   \<and> match_to_jd ex_env_timeout ''Needs Python'' (JArr []) =
       Inr (JObj [(''matches'', JArr []), (''gaps'', JArr []),
                  (''error'', JStr ([CHR 0x27] @ ''list'' @ [CHR 0x27] @ '' object has no attribute ''
                                    @ [CHR 0x27] @ ''get'' @ [CHR 0x27]))])
   \<and> get_llm ex_env_quota = Inr ()
   \<and> invoke_scoring ex_env_quota ''Needs Python'' (JArr [JStr ''Python'']) (JArr ex_gaps) (JArr [])
       = Inl (OtherException ''quota'')
   \<and> score_candidate ex_env_quota ''Needs Python'' ex_profile ex_match =
       Inr (JObj [(''score'', JInt 0), (''reasons'', JArr [JStr ''Error in scoring'']),
                  (''suggestions'', JArr []), (''error'', JStr ''quota'')])"
  using wrappers_never_raise [where w = ex_env_timeout and t = "''Jane Doe''" and j = "''Needs Python''"
          and rd = "JArr []" and md = JNull and ?e1.0 = "OtherException ''timeout''"]
        wrappers_never_raise [where w = ex_env_timeout and t = "''Jane Doe''" and j = "''Needs Python''"
          and rd = "JArr []" and md = JNull
          and ?e1.0 = "AttributeError ([CHR 0x27] @ ''list'' @ [CHR 0x27] @ '' object has no attribute ''
                            @ [CHR 0x27] @ ''get'' @ [CHR 0x27])"]
        wrappers_never_raise [where w = ex_env_quota and t = "''Jane Doe''" and j = "''Needs Python''"
          and rd = ex_profile and md = ex_match and ?e1.0 = "OtherException ''quota''"
          and mt = "JArr [JStr ''Python'']" and gp = "JArr ex_gaps" and xp = "JArr []"]
  by (simp add: ex_env_def ex_state_def ex_gaps_def ex_env_timeout_def ex_env_quota_def ex_profile_def ex_match_def get_llm_def)

section \<open>The final score\<close>

text \<open>
  Claim C3, as stated, fails: the score is taken from the oracle's response as it is,
  neither clamped nor rounded; an oracle that answers 150 yields the final score 150.
\<close>

theorem score_150_counterexample:
  "process_resume ex_env_150 ''Needs Python, 3+ years'' ''/tmp/tmpa1b2c3.pdf'' ''jane.pdf'' =
     Inr (JObj [(''candidate'', JStr ''jane.pdf''), (''score'', JInt 150),
                (''reasons'', JArr [JStr ''outstanding'']), (''suggestions'', JArr []),
                (''matches'', JArr [JStr ''Python'']), (''gaps'', JArr ex_gaps),
                (''error'', JStr [])])
   \<and> \<not> score_in_range (JInt 150)"
  by (simp add: process_resume_def workflow_invoke_unroll model_defs ex_env_def ex_state_def ex_gaps_def ex_env_150_def)

text \<open>
  Claim C3, amended. For every resume and every behaviour of the collaborators, the
  score after the scoring stage (which is the score of the final state whenever the run
  returns one) is the integer 0 or exactly the value under "score" in the object the
  scoring chain returned. So it is an integer-valued number between 0 and 100 whenever
  every score the scoring chain returns is one.
\<close>

theorem final_score_from_oracle:
  "(score (state_after_scoring w s0) = JInt 0
    \<or> (\<exists>j m g x kvs v. invoke_scoring w j m g x = Inr (JObj kvs) \<and> map_of kvs ''score'' = Some v
          \<and> score (state_after_scoring w s0) = v))
   \<and> (\<forall>final. workflow_invoke w s0 = Inr final \<longrightarrow> score final = score (state_after_scoring w s0))
   \<and> ((\<forall>j m g x kvs v. invoke_scoring w j m g x = Inr (JObj kvs) \<and> map_of kvs ''score'' = Some v
          \<longrightarrow> score_in_range v)
       \<longrightarrow> score_in_range (score (state_after_scoring w s0)))"
proof -
  have a: "score (state_after_scoring w s0) = JInt 0
    \<or> (\<exists>j m g x kvs v. invoke_scoring w j m g x = Inr (JObj kvs) \<and> map_of kvs ''score'' = Some v
          \<and> score (state_after_scoring w s0) = v)"
    using score_after_node [of w "match_jd w (extract_data w (load_resume w s0))"]
    unfolding state_after_scoring_def by blast
  have b: "\<forall>final. workflow_invoke w s0 = Inr final \<longrightarrow> score final = score (state_after_scoring w s0)"
    by (simp add: workflow_final_fields)
  have c: "(\<forall>j m g x kvs v. invoke_scoring w j m g x = Inr (JObj kvs) \<and> map_of kvs ''score'' = Some v
          \<longrightarrow> score_in_range v)
       \<longrightarrow> score_in_range (score (state_after_scoring w s0))"
    using a by auto
  from a b c show ?thesis by blast
qed

theorem final_score_from_oracle_witness:
  "workflow_invoke ex_env ex_state =
     Inr ((state_after_scoring ex_env ex_state)
            \<lparr>suggestions := JArr [JStr ''Develop skills/experience in: Kubernetes'',
                                  JStr ''Develop skills/experience in: AWS'',
                                  JStr ''Develop skills/experience in: Leadership'']\<rparr>)
   \<and> score (state_after_scoring ex_env ex_state) = JInt 35
   \<and> score_in_range (score (state_after_scoring ex_env ex_state))"
proof -
  have h: "\<forall>j m g x kvs v. invoke_scoring ex_env j m g x = Inr (JObj kvs) \<and> map_of kvs ''score'' = Some v
          \<longrightarrow> score_in_range v"
    by (auto simp: ex_env_def)
  have run: "workflow_invoke ex_env ex_state =
     Inr ((state_after_scoring ex_env ex_state)
            \<lparr>suggestions := JArr [JStr ''Develop skills/experience in: Kubernetes'',
                                  JStr ''Develop skills/experience in: AWS'',
                                  JStr ''Develop skills/experience in: Leadership'']\<rparr>)"
    by (simp add: workflow_invoke_unroll ex_after_scoring_low suggest_improvements_def bind_exn_def
          ex_gaps_def py_str_def)
  from final_score_from_oracle [of ex_env ex_state] h run
  show ?thesis by (simp add: ex_after_scoring_low)
qed

section \<open>The final state of a failed resume\<close>

text \<open>
  Claim C2, as stated, fails: when the scoring call itself fails, the wrapper's default
  object supplies the reasons, a placeholder that mentions neither the error field nor
  the exception's message.
\<close>

theorem scoring_failure_placeholder_reason:
  "process_resume ex_env_quota ''Needs Python, 3+ years'' ''/tmp/tmpa1b2c3.pdf'' ''jane.pdf'' =
     Inr (JObj [(''candidate'', JStr ''jane.pdf''), (''score'', JInt 0),
                (''reasons'', JArr [JStr ''Error in scoring'']),
                (''suggestions'', JArr [JStr ''Develop skills/experience in: Kubernetes'',
                                        JStr ''Develop skills/experience in: AWS'',
                                        JStr ''Develop skills/experience in: Leadership'']),
                (''matches'', JArr [JStr ''Python'']), (''gaps'', JArr ex_gaps),
                (''error'', JStr ''Scoring error: quota'')])
   \<and> \<not> sublist ''Scoring error: quota'' ''Error in scoring''
   \<and> \<not> sublist ''quota'' ''Error in scoring''"
  by (simp add: process_resume_def workflow_invoke_unroll model_defs ex_env_def ex_state_def ex_gaps_def ex_env_quota_def sublist_Cons_right)

text \<open>
  Claim C2, amended. For every resume and every behaviour of the collaborators, if the
  run returns a final state, its error, score and reasons are determined by where the
  failure arose. An error set before scoring is kept, with score 0 and the one reason
  "Processing failed: " followed by the error. With no error before scoring: if the
  scoring wrapper's call raises with message m (no API key, an input that is not an
  object, the chain itself), the error is "Scoring error: " followed by m, the score is 0
  and the one reason is the placeholder "Error in scoring"; if the chain returns a value
  that is not an object, so that reading its score raises with message m, the error is
  "Candidate scoring error: " followed by m, the score is 0 and the one reason is
  "Scoring failed: " followed by m; if the chain returns an object without an "error"
  key, the error stays empty. Hence, when the scoring chain returns no object that
  carries an "error" key of its own, a non-empty final error comes with score 0 and a
  single reason of one of these three forms.
\<close>

theorem failed_run_scores_zero:
  "workflow_invoke w s0 = Inr final \<Longrightarrow>
     (error (state_before_scoring w s0) \<noteq> [] \<longrightarrow>
        error final = error (state_before_scoring w s0)
        \<and> score final = JInt 0
        \<and> reasons final = JArr [JStr (''Processing failed: '' @ error final)])
   \<and> (error (state_before_scoring w s0) = []
       \<and> (get_llm w = Inl e
          \<or> (get_llm w = Inr ()
              \<and> py_get (match_data (state_before_scoring w s0)) ''matches'' (JArr []) = Inl e)
          \<or> (get_llm w = Inr ()
              \<and> py_get (match_data (state_before_scoring w s0)) ''matches'' (JArr []) = Inr mt
              \<and> py_get (match_data (state_before_scoring w s0)) ''gaps'' (JArr []) = Inr gp
              \<and> py_get (resume_data (state_before_scoring w s0)) ''experience'' (JArr []) = Inl e)
          \<or> (get_llm w = Inr ()
              \<and> py_get (match_data (state_before_scoring w s0)) ''matches'' (JArr []) = Inr mt
              \<and> py_get (match_data (state_before_scoring w s0)) ''gaps'' (JArr []) = Inr gp
              \<and> py_get (resume_data (state_before_scoring w s0)) ''experience'' (JArr []) = Inr xp
              \<and> invoke_scoring w (jd (state_before_scoring w s0)) mt gp xp = Inl e)) \<longrightarrow>
        error final = ''Scoring error: '' @ str_exn e
        \<and> score final = JInt 0
        \<and> reasons final = JArr [JStr ''Error in scoring''])
   \<and> (error (state_before_scoring w s0) = []
       \<and> get_llm w = Inr ()
       \<and> py_get (match_data (state_before_scoring w s0)) ''matches'' (JArr []) = Inr mt
       \<and> py_get (match_data (state_before_scoring w s0)) ''gaps'' (JArr []) = Inr gp
       \<and> py_get (resume_data (state_before_scoring w s0)) ''experience'' (JArr []) = Inr xp
       \<and> invoke_scoring w (jd (state_before_scoring w s0)) mt gp xp = Inr v
       \<and> py_get v ''score'' (JInt 0) = Inl e \<longrightarrow>
        error final = ''Candidate scoring error: '' @ str_exn e
        \<and> score final = JInt 0
        \<and> reasons final = JArr [JStr (''Scoring failed: '' @ str_exn e)])
   \<and> (error (state_before_scoring w s0) = []
       \<and> get_llm w = Inr ()
       \<and> py_get (match_data (state_before_scoring w s0)) ''matches'' (JArr []) = Inr mt
       \<and> py_get (match_data (state_before_scoring w s0)) ''gaps'' (JArr []) = Inr gp
       \<and> py_get (resume_data (state_before_scoring w s0)) ''experience'' (JArr []) = Inr xp
       \<and> invoke_scoring w (jd (state_before_scoring w s0)) mt gp xp = Inr (JObj kvs)
       \<and> map_of kvs ''error'' = None \<longrightarrow>
        error final = [])
   \<and> (error final \<noteq> []
       \<and> (\<forall>mt' gp' xp' kvs'.
             invoke_scoring w (jd (state_before_scoring w s0)) mt' gp' xp' = Inr (JObj kvs')
             \<longrightarrow> map_of kvs' ''error'' = None) \<longrightarrow>
        score final = JInt 0
        \<and> (reasons final = JArr [JStr (''Processing failed: '' @ error final)]
           \<or> reasons final = JArr [JStr ''Error in scoring'']
           \<or> (\<exists>m. error final = ''Candidate scoring error: '' @ m
                  \<and> reasons final = JArr [JStr (''Scoring failed: '' @ m)])))"
proof -
  assume run: "workflow_invoke w s0 = Inr final"
  define before where "before = state_before_scoring w s0"
  let ?node = "score_candidate_node w before"
  from workflow_final_fields [OF run]
  have fin: "score final = score ?node" "reasons final = reasons ?node" "error final = error ?node"
    by (simp_all add: after_before before_def)
  have c1: "error before \<noteq> [] \<longrightarrow>
        error final = error before \<and> score final = JInt 0
        \<and> reasons final = JArr [JStr (''Processing failed: '' @ error final)]"
    unfolding fin by (simp add: score_candidate_node_def)
  have c2: "error before = []
       \<and> (get_llm w = Inl e
          \<or> (get_llm w = Inr () \<and> py_get (match_data before) ''matches'' (JArr []) = Inl e)
          \<or> (get_llm w = Inr () \<and> py_get (match_data before) ''matches'' (JArr []) = Inr mt
              \<and> py_get (match_data before) ''gaps'' (JArr []) = Inr gp
              \<and> py_get (resume_data before) ''experience'' (JArr []) = Inl e)
          \<or> (get_llm w = Inr () \<and> py_get (match_data before) ''matches'' (JArr []) = Inr mt
              \<and> py_get (match_data before) ''gaps'' (JArr []) = Inr gp
              \<and> py_get (resume_data before) ''experience'' (JArr []) = Inr xp
              \<and> invoke_scoring w (jd before) mt gp xp = Inl e)) \<longrightarrow>
        error final = ''Scoring error: '' @ str_exn e \<and> score final = JInt 0
        \<and> reasons final = JArr [JStr ''Error in scoring'']"
  proof (intro impI, elim conjE)
    assume clean: "error before = []"
      and raised: "get_llm w = Inl e
          \<or> (get_llm w = Inr () \<and> py_get (match_data before) ''matches'' (JArr []) = Inl e)
          \<or> (get_llm w = Inr () \<and> py_get (match_data before) ''matches'' (JArr []) = Inr mt
              \<and> py_get (match_data before) ''gaps'' (JArr []) = Inr gp
              \<and> py_get (resume_data before) ''experience'' (JArr []) = Inl e)
          \<or> (get_llm w = Inr () \<and> py_get (match_data before) ''matches'' (JArr []) = Inr mt
              \<and> py_get (match_data before) ''gaps'' (JArr []) = Inr gp
              \<and> py_get (resume_data before) ''experience'' (JArr []) = Inr xp
              \<and> invoke_scoring w (jd before) mt gp xp = Inl e)"
    from score_node_on_object [OF clean score_candidate_raised [OF raised]]
    show "error final = ''Scoring error: '' @ str_exn e \<and> score final = JInt 0
        \<and> reasons final = JArr [JStr ''Error in scoring'']"
      unfolding fin by (simp add: py_str_def)
  qed
  have c3: "error before = [] \<and> get_llm w = Inr ()
       \<and> py_get (match_data before) ''matches'' (JArr []) = Inr mt
       \<and> py_get (match_data before) ''gaps'' (JArr []) = Inr gp
       \<and> py_get (resume_data before) ''experience'' (JArr []) = Inr xp
       \<and> invoke_scoring w (jd before) mt gp xp = Inr v
       \<and> py_get v ''score'' (JInt 0) = Inl e \<longrightarrow>
        error final = ''Candidate scoring error: '' @ str_exn e \<and> score final = JInt 0
        \<and> reasons final = JArr [JStr (''Scoring failed: '' @ str_exn e)]"
  proof (intro impI, elim conjE)
    assume clean: "error before = []" and k: "get_llm w = Inr ()"
      and a: "py_get (match_data before) ''matches'' (JArr []) = Inr mt"
      and b: "py_get (match_data before) ''gaps'' (JArr []) = Inr gp"
      and c: "py_get (resume_data before) ''experience'' (JArr []) = Inr xp"
      and d: "invoke_scoring w (jd before) mt gp xp = Inr v"
      and bad: "py_get v ''score'' (JInt 0) = Inl e"
    from score_node_on_other [OF clean score_candidate_returned [OF k a b c d] bad]
    show "error final = ''Candidate scoring error: '' @ str_exn e \<and> score final = JInt 0
        \<and> reasons final = JArr [JStr (''Scoring failed: '' @ str_exn e)]"
      unfolding fin by simp
  qed
  have c4: "error before = [] \<and> get_llm w = Inr ()
       \<and> py_get (match_data before) ''matches'' (JArr []) = Inr mt
       \<and> py_get (match_data before) ''gaps'' (JArr []) = Inr gp
       \<and> py_get (resume_data before) ''experience'' (JArr []) = Inr xp
       \<and> invoke_scoring w (jd before) mt gp xp = Inr (JObj kvs)
       \<and> map_of kvs ''error'' = None \<longrightarrow> error final = []"
  proof (intro impI, elim conjE)
    assume clean: "error before = []" and k: "get_llm w = Inr ()"
      and a: "py_get (match_data before) ''matches'' (JArr []) = Inr mt"
      and b: "py_get (match_data before) ''gaps'' (JArr []) = Inr gp"
      and c: "py_get (resume_data before) ''experience'' (JArr []) = Inr xp"
      and d: "invoke_scoring w (jd before) mt gp xp = Inr (JObj kvs)"
      and none: "map_of kvs ''error'' = None"
    from score_node_on_object [OF clean score_candidate_returned [OF k a b c d]] none
    show "error final = []" unfolding fin by simp
  qed
  have c5: "error final \<noteq> []
       \<and> (\<forall>mt' gp' xp' kvs'. invoke_scoring w (jd before) mt' gp' xp' = Inr (JObj kvs')
             \<longrightarrow> map_of kvs' ''error'' = None) \<longrightarrow>
        score final = JInt 0
        \<and> (reasons final = JArr [JStr (''Processing failed: '' @ error final)]
           \<or> reasons final = JArr [JStr ''Error in scoring'']
           \<or> (\<exists>m. error final = ''Candidate scoring error: '' @ m
                  \<and> reasons final = JArr [JStr (''Scoring failed: '' @ m)]))"
  proof (intro impI, elim conjE)
    assume failed: "error final \<noteq> []"
      and own: "\<forall>mt' gp' xp' kvs'. invoke_scoring w (jd before) mt' gp' xp' = Inr (JObj kvs')
             \<longrightarrow> map_of kvs' ''error'' = None"
    show "score final = JInt 0
        \<and> (reasons final = JArr [JStr (''Processing failed: '' @ error final)]
           \<or> reasons final = JArr [JStr ''Error in scoring'']
           \<or> (\<exists>m. error final = ''Candidate scoring error: '' @ m
                  \<and> reasons final = JArr [JStr (''Scoring failed: '' @ m)]))"
    proof (cases "error before = []")
      case False
      with c1 show ?thesis by simp
    next
      case True
      from score_candidate_body_cases [of w "jd before" "resume_data before" "match_data before"]
      show ?thesis
      proof (elim disjE exE conjE)
        fix e'
        assume "score_candidate w (jd before) (resume_data before) (match_data before) =
            Inr (JObj [(''score'', JInt 0), (''reasons'', JArr [JStr ''Error in scoring'']),
                       (''suggestions'', JArr []), (''error'', JStr (str_exn e'))])"
        from score_node_on_object [OF True this] show ?thesis unfolding fin by simp
      next
        fix mt' gp' xp' v'
        assume d: "invoke_scoring w (jd before) mt' gp' xp' = Inr v'"
          and sc: "score_candidate w (jd before) (resume_data before) (match_data before) = Inr v'"
        from py_get_cases [of v' "''score''" "JInt 0"] show ?thesis
        proof (elim disjE exE)
          fix kvs' assume v': "v' = JObj kvs'"
          with own d have "map_of kvs' ''error'' = None" by blast
          with score_node_on_object [OF True sc [unfolded v']] True failed
          show ?thesis unfolding fin by simp
        next
          fix e' assume "py_get v' ''score'' (JInt 0) = Inl e'"
          from score_node_on_other [OF True sc this] show ?thesis unfolding fin by simp
        qed
      qed
    qed
  qed
  from c1 c2 c3 c4 c5 show ?thesis unfolding before_def by blast
qed

theorem failed_run_scores_zero_witness:
  "workflow_invoke ex_env_blank ex_state =
     Inr (ex_state\<lparr>error := ''Empty PDF or failed to extract text'', score := JInt 0,
                   reasons := JArr [JStr ''Processing failed: Empty PDF or failed to extract text''],
                   suggestions := JArr [JStr ''Consider gaining more relevant experience'']\<rparr>)
   \<and> error (state_before_scoring ex_env_blank ex_state) = ''Empty PDF or failed to extract text''
   \<and> error (state_before_scoring ex_env_quota ex_state) = []
   \<and> invoke_scoring ex_env_quota (jd (state_before_scoring ex_env_quota ex_state))
        (JArr [JStr ''Python'']) (JArr ex_gaps) (JArr []) = Inl (OtherException ''quota'')
   \<and> map_sum str_exn error (workflow_invoke ex_env_quota ex_state) = Inr ''Scoring error: quota''
   \<and> map_sum str_exn score (workflow_invoke ex_env_quota ex_state) = Inr (JInt 0)
   \<and> map_sum str_exn reasons (workflow_invoke ex_env_quota ex_state) = Inr (JArr [JStr ''Error in scoring''])
   \<and> error (state_before_scoring ex_env_score_list ex_state) = []
   \<and> invoke_scoring ex_env_score_list (jd (state_before_scoring ex_env_score_list ex_state))
        (JArr [JStr ''Python'']) (JArr ex_gaps) (JArr []) = Inr (JArr [JInt 35])
   \<and> map_sum str_exn error (workflow_invoke ex_env_score_list ex_state) =
       Inr (''Candidate scoring error: '' @ [CHR 0x27] @ ''list'' @ [CHR 0x27]
            @ '' object has no attribute '' @ [CHR 0x27] @ ''get'' @ [CHR 0x27])
   \<and> map_sum str_exn score (workflow_invoke ex_env_score_list ex_state) = Inr (JInt 0)
   \<and> map_sum str_exn reasons (workflow_invoke ex_env_score_list ex_state) =
       Inr (JArr [JStr (''Scoring failed: '' @ [CHR 0x27] @ ''list'' @ [CHR 0x27]
                        @ '' object has no attribute '' @ [CHR 0x27] @ ''get'' @ [CHR 0x27])])"
proof -
  let ?attr = "AttributeError ([CHR 0x27] @ ''list'' @ [CHR 0x27] @ '' object has no attribute ''
                               @ [CHR 0x27] @ ''get'' @ [CHR 0x27])"
  have run1: "workflow_invoke ex_env_blank ex_state =
     Inr (ex_state\<lparr>error := ''Empty PDF or failed to extract text'', score := JInt 0,
                   reasons := JArr [JStr ''Processing failed: Empty PDF or failed to extract text''],
                   suggestions := JArr [JStr ''Consider gaining more relevant experience'']\<rparr>)"
    by (simp add: workflow_invoke_unroll model_defs ex_env_def ex_state_def ex_env_blank_def)
  have b1: "error (state_before_scoring ex_env_blank ex_state) = ''Empty PDF or failed to extract text''"
    by (simp add: state_before_scoring_def model_defs ex_env_def ex_state_def ex_env_blank_def)
  obtain f2 where run2: "workflow_invoke ex_env_quota ex_state = Inr f2"
    by (cases "workflow_invoke ex_env_quota ex_state")
       (simp_all add: workflow_invoke_unroll model_defs ex_env_def ex_state_def ex_gaps_def ex_env_quota_def)
  have b2: "state_before_scoring ex_env_quota ex_state =
      ex_state\<lparr>resume_text := ''Jane Doe'' @ [CHR 0x0A] @ ''Python, 5 years'',
        resume_data := JObj [(''skills'', JArr [JStr ''Python'']), (''experience'', JArr []),
                             (''education'', JArr [])],
        match_data := JObj [(''matches'', JArr [JStr ''Python'']), (''gaps'', JArr ex_gaps)]\<rparr>"
    by (simp add: state_before_scoring_def model_defs ex_env_def ex_state_def ex_gaps_def ex_env_quota_def)
  obtain f3 where run3: "workflow_invoke ex_env_score_list ex_state = Inr f3"
    by (cases "workflow_invoke ex_env_score_list ex_state")
       (simp_all add: workflow_invoke_unroll model_defs ex_env_def ex_state_def ex_gaps_def
          ex_env_score_list_def)
  have b3: "state_before_scoring ex_env_score_list ex_state =
      ex_state\<lparr>resume_text := ''Jane Doe'' @ [CHR 0x0A] @ ''Python, 5 years'',
        resume_data := JObj [(''skills'', JArr [JStr ''Python'']), (''experience'', JArr []),
                             (''education'', JArr [])],
        match_data := JObj [(''matches'', JArr [JStr ''Python'']), (''gaps'', JArr ex_gaps)]\<rparr>"
    by (simp add: state_before_scoring_def model_defs ex_env_def ex_state_def ex_gaps_def
          ex_env_score_list_def)
  have f2: "error (state_before_scoring ex_env_quota ex_state) = []"
    "match_data (state_before_scoring ex_env_quota ex_state) =
       JObj [(''matches'', JArr [JStr ''Python'']), (''gaps'', JArr ex_gaps)]"
    "resume_data (state_before_scoring ex_env_quota ex_state) =
       JObj [(''skills'', JArr [JStr ''Python'']), (''experience'', JArr []), (''education'', JArr [])]"
    unfolding b2 by (simp_all add: ex_state_def initial_state_def)
  have f3: "error (state_before_scoring ex_env_score_list ex_state) = []"
    "match_data (state_before_scoring ex_env_score_list ex_state) =
       JObj [(''matches'', JArr [JStr ''Python'']), (''gaps'', JArr ex_gaps)]"
    "resume_data (state_before_scoring ex_env_score_list ex_state) =
       JObj [(''skills'', JArr [JStr ''Python'']), (''experience'', JArr []), (''education'', JArr [])]"
    unfolding b3 by (simp_all add: ex_state_def initial_state_def)
  have k2: "get_llm ex_env_quota = Inr ()" and k3: "get_llm ex_env_score_list = Inr ()"
    by (simp_all add: get_llm_def ex_env_def ex_env_quota_def ex_env_score_list_def)
  have i2: "invoke_scoring ex_env_quota (jd (state_before_scoring ex_env_quota ex_state))
        (JArr [JStr ''Python'']) (JArr ex_gaps) (JArr []) = Inl (OtherException ''quota'')"
    by (simp add: ex_env_def ex_env_quota_def)
  have i3: "invoke_scoring ex_env_score_list (jd (state_before_scoring ex_env_score_list ex_state))
        (JArr [JStr ''Python'']) (JArr ex_gaps) (JArr []) = Inr (JArr [JInt 35])"
    by (simp add: ex_env_def ex_env_score_list_def)
  note t1 = failed_run_scores_zero [OF run1]
  note t2 = failed_run_scores_zero [OF run2, where e = "OtherException ''quota''"
              and mt = "JArr [JStr ''Python'']" and gp = "JArr ex_gaps" and xp = "JArr []"]
  note t3 = failed_run_scores_zero [OF run3, where e = ?attr and v = "JArr [JInt 35]"
              and mt = "JArr [JStr ''Python'']" and gp = "JArr ex_gaps" and xp = "JArr []"]
  from t2 k2 i2 have q: "error f2 = ''Scoring error: quota'' \<and> score f2 = JInt 0
        \<and> reasons f2 = JArr [JStr ''Error in scoring'']"
    by (simp add: f2)
  from t3 k3 i3 have l: "error f3 = ''Candidate scoring error: '' @ str_exn ?attr \<and> score f3 = JInt 0
        \<and> reasons f3 = JArr [JStr (''Scoring failed: '' @ str_exn ?attr)]"
    by (simp add: f3)
  from t1 run1 b1 run2 q run3 l i2 i3 show ?thesis
    by (simp add: f2 f3)
qed

section \<open>The batch runner\<close>

text \<open>
  Claim C9, as stated, fails: the branch predicate, the SuggestImprovements stage and the
  projection into the output record run outside any handler, and the batch loop has a
  \<^verbatim>\<open>finally\<close> clause but no \<^verbatim>\<open>except\<close>. So oracle data of an unexpected shape raises
  out of the resume's run and out of the batch, and no list is returned: a score that is
  not a number (here the text "75%"), a matching response that is not an object (here a
  list), gaps that cannot be sliced (here an object) when the score is below 50 and the
  oracle gave no suggestions.
\<close>

theorem unshaped_oracle_data_aborts_batch:
  "process_multiple_resumes ex_batch_pct ''Needs Python, 3+ years'' [(''jane.pdf'', ''%PDF-1.4'')] =
     Inl (TypeError ([CHR 0x27] @ ''<'' @ [CHR 0x27] @ '' not supported between instances of ''
                     @ [CHR 0x27] @ ''str'' @ [CHR 0x27] @ '' and '' @ [CHR 0x27] @ ''int'' @ [CHR 0x27]))
   \<and> process_multiple_resumes ex_batch_match_list ''Needs Python, 3+ years'' [(''jane.pdf'', ''%PDF-1.4'')] =
     Inl (AttributeError ([CHR 0x27] @ ''list'' @ [CHR 0x27] @ '' object has no attribute ''
                          @ [CHR 0x27] @ ''get'' @ [CHR 0x27]))
   \<and> process_multiple_resumes ex_batch_dict_gaps ''Needs Python, 3+ years'' [(''jane.pdf'', ''%PDF-1.4'')] =
     Inl (TypeError (''unhashable type: '' @ [CHR 0x27] @ ''slice'' @ [CHR 0x27]))"
  by (simp add: process_multiple_resumes_def process_resume_def workflow_invoke_unroll model_defs
        ex_env_def ex_state_def ex_gaps_def ex_env_pct_def ex_batch_pct_def
        ex_env_match_list_def ex_batch_match_list_def ex_env_dict_gaps_def ex_batch_dict_gaps_def)

text \<open>
  Claim C9, amended. Writing and removing the temporary files is taken to succeed. For
  every job description and every ordered list of (name, content) pairs, the batch
  runner returns a list if and only if, for every resume, the state that leaves the
  ScoreCandidate stage has a score that is a number, a match result that is an object
  and, when the score is below 50 and the suggestions are empty, gaps that are absent,
  falsy, a list or a text. When it returns, the list has exactly one output record per
  input pair, in the order of the input list, the \<open>i\<close>-th record being the result of
  processing the \<open>i\<close>-th pair, with the keys candidate, score, reasons, suggestions,
  matches, gaps, error and the pair's name as candidate; this includes resumes whose
  processing ends with a non-empty error field (a failing loader, a raising oracle call).
\<close>

theorem batch_one_record_each:
  "((\<exists>out. process_multiple_resumes ws jd_arg resume_files = Inr out)
      \<longleftrightarrow> (\<forall>i<length resume_files.
             rest_of_run_safe
               (state_after_scoring (ws i)
                  (initial_state jd_arg (tmp_name (ws i)) (fst (resume_files ! i))))))
   \<and> (process_multiple_resumes ws jd_arg resume_files = Inr results \<longrightarrow>
        length results = length resume_files
        \<and> (\<forall>i<length resume_files.
             process_resume (ws i) jd_arg (tmp_name (ws i)) (fst (resume_files ! i)) = Inr (results ! i)
             \<and> (\<exists>sc rs sg mt gp er.
                   results ! i =
                     JObj [(''candidate'', JStr (fst (resume_files ! i))), (''score'', sc),
                           (''reasons'', rs), (''suggestions'', sg), (''matches'', mt),
                           (''gaps'', gp), (''error'', JStr er)])))"
proof (rule conjI)
  show "(\<exists>out. process_multiple_resumes ws jd_arg resume_files = Inr out)
      \<longleftrightarrow> (\<forall>i<length resume_files.
             rest_of_run_safe
               (state_after_scoring (ws i)
                  (initial_state jd_arg (tmp_name (ws i)) (fst (resume_files ! i)))))"
  proof
    assume "\<exists>out. process_multiple_resumes ws jd_arg resume_files = Inr out"
    then obtain out where "resumes_loop ws jd_arg 0 resume_files [] = Inr out"
      by (auto simp: process_multiple_resumes_def)
    from resumes_loop_returned [OF this]
    show "\<forall>i<length resume_files.
             rest_of_run_safe
               (state_after_scoring (ws i)
                  (initial_state jd_arg (tmp_name (ws i)) (fst (resume_files ! i))))"
      by (simp add: process_resume_iff)
  next
    assume "\<forall>i<length resume_files.
             rest_of_run_safe
               (state_after_scoring (ws i)
                  (initial_state jd_arg (tmp_name (ws i)) (fst (resume_files ! i))))"
    then have "\<forall>i<length resume_files.
        \<exists>r. process_resume (ws (0 + i)) jd_arg (tmp_name (ws (0 + i))) (fst (resume_files ! i)) = Inr r"
      by (simp add: process_resume_iff)
    from resumes_loop_all [OF this, of "[]"]
    show "\<exists>out. process_multiple_resumes ws jd_arg resume_files = Inr out"
      by (auto simp: process_multiple_resumes_def)
  qed
next
  show "process_multiple_resumes ws jd_arg resume_files = Inr results \<longrightarrow>
        length results = length resume_files
        \<and> (\<forall>i<length resume_files.
             process_resume (ws i) jd_arg (tmp_name (ws i)) (fst (resume_files ! i)) = Inr (results ! i)
             \<and> (\<exists>sc rs sg mt gp er.
                   results ! i =
                     JObj [(''candidate'', JStr (fst (resume_files ! i))), (''score'', sc),
                           (''reasons'', rs), (''suggestions'', sg), (''matches'', mt),
                           (''gaps'', gp), (''error'', JStr er)]))"
  proof (rule impI)
  assume res: "process_multiple_resumes ws jd_arg resume_files = Inr results"
  then have loop: "resumes_loop ws jd_arg 0 resume_files [] = Inr results"
    by (simp add: process_multiple_resumes_def)
  from resumes_loop_returned [OF loop]
  have "\<forall>i<length resume_files.
        \<exists>r. process_resume (ws (0 + i)) jd_arg (tmp_name (ws (0 + i))) (fst (resume_files ! i)) = Inr r" .
  from resumes_loop_all [OF this, of "[]"] loop
  have len: "length results = length resume_files"
    and each: "\<forall>i<length resume_files.
        process_resume (ws i) jd_arg (tmp_name (ws i)) (fst (resume_files ! i)) = Inr (results ! i)"
    by auto
  show "length results = length resume_files
        \<and> (\<forall>i<length resume_files.
             process_resume (ws i) jd_arg (tmp_name (ws i)) (fst (resume_files ! i)) = Inr (results ! i)
             \<and> (\<exists>sc rs sg mt gp er.
                   results ! i =
                     JObj [(''candidate'', JStr (fst (resume_files ! i))), (''score'', sc),
                           (''reasons'', rs), (''suggestions'', sg), (''matches'', mt),
                           (''gaps'', gp), (''error'', JStr er)]))"
    using len each process_resume_record by blast
  qed
qed

theorem batch_one_record_each_witness:
  "rest_of_run_safe (state_after_scoring (ex_batch 0)
       (initial_state ''Needs Python, 3+ years'' (tmp_name (ex_batch 0)) ''blank.pdf''))
   \<and> rest_of_run_safe (state_after_scoring (ex_batch 1)
       (initial_state ''Needs Python, 3+ years'' (tmp_name (ex_batch 1)) ''jane.pdf''))
   \<and> process_multiple_resumes ex_batch ''Needs Python, 3+ years'' ex_files =
     Inr [JObj [(''candidate'', JStr ''blank.pdf''), (''score'', JInt 0),
                (''reasons'', JArr [JStr ''Processing failed: Empty PDF or failed to extract text'']),
                (''suggestions'', JArr [JStr ''Consider gaining more relevant experience'']),
                (''matches'', JArr []), (''gaps'', JArr []),
                (''error'', JStr ''Empty PDF or failed to extract text'')],
          JObj [(''candidate'', JStr ''jane.pdf''), (''score'', JInt 82),
                (''reasons'', JArr [JStr ''strong skill match'']), (''suggestions'', JArr []),
                (''matches'', JArr [JStr ''Python'']), (''gaps'', JArr ex_gaps),
                (''error'', JStr [])]]
   \<and> length ex_files = 2"
proof -
  let ?r0 = "JObj [(''candidate'', JStr ''blank.pdf''), (''score'', JInt 0),
                (''reasons'', JArr [JStr ''Processing failed: Empty PDF or failed to extract text'']),
                (''suggestions'', JArr [JStr ''Consider gaining more relevant experience'']),
                (''matches'', JArr []), (''gaps'', JArr []),
                (''error'', JStr ''Empty PDF or failed to extract text'')]"
  let ?r1 = "JObj [(''candidate'', JStr ''jane.pdf''), (''score'', JInt 82),
                (''reasons'', JArr [JStr ''strong skill match'']), (''suggestions'', JArr []),
                (''matches'', JArr [JStr ''Python'']), (''gaps'', JArr ex_gaps),
                (''error'', JStr [])]"
  have s0: "rest_of_run_safe (state_after_scoring (ex_batch 0)
       (initial_state ''Needs Python, 3+ years'' (tmp_name (ex_batch 0)) ''blank.pdf''))"
    by (simp add: rest_of_run_safe_def gaps_usable_def model_defs ex_env_def ex_env_blank_def ex_batch_def)
  have s1: "rest_of_run_safe (state_after_scoring (ex_batch 1)
       (initial_state ''Needs Python, 3+ years'' (tmp_name (ex_batch 1)) ''jane.pdf''))"
    by (simp add: rest_of_run_safe_def gaps_usable_def model_defs ex_env_def ex_env_good_def ex_batch_def)
  have safe: "\<forall>i<length ex_files.
             rest_of_run_safe
               (state_after_scoring (ex_batch i)
                  (initial_state ''Needs Python, 3+ years'' (tmp_name (ex_batch i)) (fst (ex_files ! i))))"
  proof (intro allI impI)
    fix i assume "i < length ex_files"
    then have "i = 0 \<or> i = 1" by (auto simp: ex_files_def)
    then show "rest_of_run_safe
               (state_after_scoring (ex_batch i)
                  (initial_state ''Needs Python, 3+ years'' (tmp_name (ex_batch i)) (fst (ex_files ! i))))"
      using s0 s1 by (auto simp: ex_files_def)
  qed
  from batch_one_record_each [of ex_batch "''Needs Python, 3+ years''" ex_files] safe obtain out
    where out: "process_multiple_resumes ex_batch ''Needs Python, 3+ years'' ex_files = Inr out"
    by blast
  from batch_one_record_each [of ex_batch "''Needs Python, 3+ years''" ex_files out] out
  have len: "length out = length ex_files"
    and each: "\<forall>i<length ex_files.
        process_resume (ex_batch i) ''Needs Python, 3+ years'' (tmp_name (ex_batch i)) (fst (ex_files ! i))
          = Inr (out ! i)"
    by blast+
  have r0: "process_resume (ex_batch 0) ''Needs Python, 3+ years'' (tmp_name (ex_batch 0)) ''blank.pdf'' = Inr ?r0"
    by (simp add: process_resume_def workflow_invoke_unroll model_defs
          ex_env_def ex_gaps_def ex_env_blank_def ex_batch_def)
  have r1: "process_resume (ex_batch 1) ''Needs Python, 3+ years'' (tmp_name (ex_batch 1)) ''jane.pdf'' = Inr ?r1"
    by (simp add: process_resume_def workflow_invoke_unroll model_defs
          ex_env_def ex_gaps_def ex_env_good_def ex_batch_def)
  from len obtain a b where ab: "out = [a, b]"
    by (cases out; cases "tl out") (auto simp: ex_files_def)
  from each [rule_format, of 0] each [rule_format, of 1] r0 r1 ab
  have "a = ?r0" and "b = ?r1"
    by (simp_all add: ex_files_def)
  with out ab s0 s1 show ?thesis by (simp add: ex_files_def)
qed

end
